theory Spec2Isabelle
  imports Main "HOL-Library.AList"
begin

section \<open>Python values\<close>

text \<open>
  The values that travel through the Fleet Manager client are JSON documents: what
  \<^verbatim>\<open>response.json()\<close> returns and what \<^verbatim>\<open>json.dumps\<close> accepts. A Python \<^verbatim>\<open>dict\<close>
  keeps its keys in insertion order, so an object is an association list; a \<^verbatim>\<open>str\<close> is a
  \<^typ>\<open>string\<close> whose characters stand for code points below 256. Floats do not occur in
  the modelled code paths and are left out.
\<close>

datatype json =
    JNull
  | JBool bool
  | JInt int
  | JStr string
  | JArr "json list"
  | JObj "(string \<times> json) list"

type_synonym dict = "(string \<times> json) list"

text \<open>
  Exceptions. Only \<^verbatim>\<open>DataikuException\<close> carries its message, the one message the
  client composes itself; \<open>TransportError\<close> stands for what \<^verbatim>\<open>Session.request\<close> raises
  when no response arrives (connection errors and the like).
\<close>

datatype exn =
    ValueError
  | TypeError
  | KeyError
  | AttributeError
  | DataikuException string
  | TransportError

text \<open>\<^verbatim>\<open>d[k] = v\<close> on a dict: an existing key keeps its place, a new key goes last.\<close>

definition dict_set :: "string \<Rightarrow> json \<Rightarrow> dict \<Rightarrow> dict" where
  "dict_set k v d = AList.update k v d"

text \<open>\<^verbatim>\<open>obj[k]\<close> with a string key: only a dict has such items.\<close>

definition getitem :: "json \<Rightarrow> string \<Rightarrow> exn + json" where
  "getitem obj k =
     (case obj of
        JObj d \<Rightarrow> (case map_of d k of Some v \<Rightarrow> Inr v | None \<Rightarrow> Inl KeyError)
      | _ \<Rightarrow> Inl TypeError)"

text \<open>\<^verbatim>\<open>obj[k] = v\<close> with a string key.\<close>

definition setitem :: "json \<Rightarrow> string \<Rightarrow> json \<Rightarrow> exn + json" where
  "setitem obj k v =
     (case obj of
        JObj d \<Rightarrow> Inr (JObj (dict_set k v d))
      | _ \<Rightarrow> Inl TypeError)"

text \<open>\<^verbatim>\<open>obj.get(k, default)\<close>: a method of dicts only.\<close>

definition get_default :: "json \<Rightarrow> string \<Rightarrow> json \<Rightarrow> exn + json" where
  "get_default obj k dflt =
     (case obj of
        JObj d \<Rightarrow> (case map_of d k of Some v \<Rightarrow> Inr v | None \<Rightarrow> Inr dflt)
      | _ \<Rightarrow> Inl AttributeError)"

subsection \<open>Printing: \<^verbatim>\<open>str\<close>, \<^verbatim>\<open>repr\<close> and \<^verbatim>\<open>json.dumps\<close>\<close>

fun dec_nat :: "nat \<Rightarrow> string" where
  "dec_nat n =
     (if n < 10 then [''0123456789'' ! n]
      else dec_nat (n div 10) @ [''0123456789'' ! (n mod 10)])"

definition dec_int :: "int \<Rightarrow> string" where
  "dec_int i = (if i < 0 then ''-'' @ dec_nat (nat (- i)) else dec_nat (nat i))"

definition hex2 :: "nat \<Rightarrow> string" where
  "hex2 n = [''0123456789abcdef'' ! ((n div 16) mod 16), ''0123456789abcdef'' ! (n mod 16)]"

fun join :: "string \<Rightarrow> string list \<Rightarrow> string" where
  "join sep [] = []"
| "join sep [x] = x"
| "join sep (x # y # ys) = x @ sep @ join sep (y # ys)"

text \<open>
  \<^verbatim>\<open>repr\<close> of a \<^verbatim>\<open>str\<close>: single quotes unless the text has a single quote and no double
  quote; the quote in use and the backslash are escaped, tab, newline and carriage return
  have short escapes, and every other unprintable character is written \<^verbatim>\<open>\xNN\<close>.
\<close>

definition printable :: "char \<Rightarrow> bool" where
  "printable c =
     (let n = (of_char c :: nat)
      in (32 \<le> n \<and> n < 127) \<or> (161 \<le> n \<and> n \<noteq> 173))"

definition repr_char :: "char \<Rightarrow> char \<Rightarrow> string" where
  "repr_char q c =
     (if c = q \<or> c = CHR 0x5C then [CHR 0x5C, c]
      else if c = CHR 0x09 then [CHR 0x5C, CHR ''t'']
      else if c = CHR 0x0A then [CHR 0x5C, CHR ''n'']
      else if c = CHR 0x0D then [CHR 0x5C, CHR ''r'']
      else if printable c then [c]
      else [CHR 0x5C, CHR ''x''] @ hex2 (of_char c))"

definition repr_str :: "string \<Rightarrow> string" where
  "repr_str s =
     (let q = (if CHR 0x27 \<in> set s \<and> CHR 0x22 \<notin> set s then CHR 0x22 else CHR 0x27)
      in [q] @ concat (map (repr_char q) s) @ [q])"

fun py_repr :: "json \<Rightarrow> string"
and repr_items :: "json list \<Rightarrow> string list"
and repr_members :: "(string \<times> json) list \<Rightarrow> string list" where
  "py_repr JNull = ''None''"
| "py_repr (JBool b) = (if b then ''True'' else ''False'')"
| "py_repr (JInt i) = dec_int i"
| "py_repr (JStr s) = repr_str s"
| "py_repr (JArr xs) = ''['' @ join '', '' (repr_items xs) @ '']''"
| "py_repr (JObj d) = ''{'' @ join '', '' (repr_members d) @ ''}''"
| "repr_items [] = []"
| "repr_items (x # xs) = py_repr x # repr_items xs"
| "repr_members [] = []"
| "repr_members (kv # d) = (repr_str (fst kv) @ '': '' @ py_repr (snd kv)) # repr_members d"

text \<open>\<^verbatim>\<open>"%s" % v\<close>: a \<^verbatim>\<open>str\<close> is itself, any other value prints as its \<^verbatim>\<open>repr\<close>.\<close>

definition py_str :: "json \<Rightarrow> string" where
  "py_str v = (case v of JStr s \<Rightarrow> s | _ \<Rightarrow> py_repr v)"

text \<open>
  \<^verbatim>\<open>json.dumps\<close> with its defaults (\<^verbatim>\<open>ensure_ascii\<close>, separators \<^verbatim>\<open>", "\<close> and \<^verbatim>\<open>": "\<close>):
  the members of an object are written in the dict's own order.
\<close>

definition dumps_char :: "char \<Rightarrow> string" where
  "dumps_char c =
     (if c = CHR 0x22 then [CHR 0x5C, CHR 0x22]
      else if c = CHR 0x5C then [CHR 0x5C, CHR 0x5C]
      else if c = CHR 0x0A then [CHR 0x5C, CHR ''n'']
      else if c = CHR 0x0D then [CHR 0x5C, CHR ''r'']
      else if c = CHR 0x09 then [CHR 0x5C, CHR ''t'']
      else if c = CHR 0x08 then [CHR 0x5C, CHR ''b'']
      else if c = CHR 0x0C then [CHR 0x5C, CHR ''f'']
      else if 32 \<le> (of_char c :: nat) \<and> (of_char c :: nat) < 127 then [c]
      else [CHR 0x5C, CHR ''u'', CHR ''0'', CHR ''0''] @ hex2 (of_char c))"

definition dumps_str :: "string \<Rightarrow> string" where
  "dumps_str s = [CHR 0x22] @ concat (map dumps_char s) @ [CHR 0x22]"

fun json_dumps :: "json \<Rightarrow> string"
and dumps_items :: "json list \<Rightarrow> string list"
and dumps_members :: "(string \<times> json) list \<Rightarrow> string list" where
  "json_dumps JNull = ''null''"
| "json_dumps (JBool b) = (if b then ''true'' else ''false'')"
| "json_dumps (JInt i) = dec_int i"
| "json_dumps (JStr s) = dumps_str s"
| "json_dumps (JArr xs) = ''['' @ join '', '' (dumps_items xs) @ '']''"
| "json_dumps (JObj d) = ''{'' @ join '', '' (dumps_members d) @ ''}''"
| "dumps_items [] = []"
| "dumps_items (x # xs) = json_dumps x # dumps_items xs"
| "dumps_members [] = []"
| "dumps_members (kv # d) = (dumps_str (fst kv) @ '': '' @ json_dumps (snd kv)) # dumps_members d"

section \<open>The HTTP transport\<close>

text \<open>
  What \<^verbatim>\<open>Session.request\<close> is called with, and what it answers. The field \<open>json_body\<close> of a
  response is the value of \<^verbatim>\<open>response.json()\<close>, \<open>None\<close> when that call raises
  \<^verbatim>\<open>ValueError\<close> because the text is not JSON.
\<close>

record request =
  req_method :: string
  req_url :: string
  req_params :: "json option"
  req_data :: "string option"
  req_files :: "dict option"
  req_stream :: bool

record response =
  status_code :: nat
  text_of :: string
  json_body :: "json option"

datatype answer = Response response | NoResponse

text \<open>
  The server, with the network in front of it, is any function from the requests sent so
  far (the last one being the request to answer) to an answer. The state threaded through
  the client's methods is that list of requests.
\<close>

type_synonym server = "request list \<Rightarrow> answer"

text \<open>\<^verbatim>\<open>Response.raise_for_status\<close> of the HTTP library raises \<^verbatim>\<open>HTTPError\<close> for the
  client and server error codes, 400 to 599, and for nothing else.\<close>

definition raises_for_status :: "response \<Rightarrow> bool" where
  "raises_for_status r = (400 \<le> status_code r \<and> status_code r < 600)"

section \<open>FMClient\<close>

record FMClient =
  api_key_id :: string
  api_key_secret :: string
  host :: string
  cloud :: string
  tenant_id :: string
  session_auth :: "(string \<times> string) option"
  session_headers :: "(string \<times> string) list"

definition FMClient_init ::
  "string \<Rightarrow> string option \<Rightarrow> string option \<Rightarrow> string \<Rightarrow> string \<Rightarrow>
   (string \<times> string) list option \<Rightarrow> exn + FMClient" where
  "FMClient_init host' key_id key_secret cloud' tenant extra_headers =
     (if cloud' \<notin> set [''AWS'', ''Azure''] then Inl ValueError
      else
        (case (key_id, key_secret) of
           (Some i, Some s) \<Rightarrow>
             Inr \<lparr> api_key_id = i, api_key_secret = s, host = host', cloud = cloud',
                   tenant_id = tenant, session_auth = Some (i, s),
                   session_headers = (case extra_headers of None \<Rightarrow> [] | Some h \<Rightarrow> h) \<rparr>
         | _ \<Rightarrow> Inl ValueError))"

subsection \<open>Internal request handling\<close>

text \<open>The message of the exception raised for an error response.\<close>

definition error_message :: "json \<Rightarrow> exn + string" where
  "error_message ex =
     (case get_default ex ''errorType'' (JStr ''Unknown error'') of
        Inl e \<Rightarrow> Inl e
      | Inr t \<Rightarrow>
          (case get_default ex ''message'' (JStr ''No message'') of
             Inl e \<Rightarrow> Inl e
           | Inr m \<Rightarrow> Inr (py_str t @ '': '' @ py_str m)))"

definition perform_http ::
  "server \<Rightarrow> FMClient \<Rightarrow> string \<Rightarrow> string \<Rightarrow> json option \<Rightarrow> json option \<Rightarrow> bool \<Rightarrow>
   dict option \<Rightarrow> string option \<Rightarrow> request list \<Rightarrow> (exn + response) \<times> request list" where
  "perform_http srv self method path params body stream files raw_body sent =
     (let body1 = (case body of Some b \<Rightarrow> Some (json_dumps b) | None \<Rightarrow> None);
          body2 = (case raw_body of Some r \<Rightarrow> Some r | None \<Rightarrow> body1);
          req = \<lparr> req_method = method, req_url = host self @ ''/api/public'' @ path,
                  req_params = params, req_data = body2, req_files = files,
                  req_stream = stream \<rparr>;
          sent' = sent @ [req]
      in case srv sent' of
           NoResponse \<Rightarrow> (Inl TransportError, sent')
         | Response http_res \<Rightarrow>
             if raises_for_status http_res then
               (let ex = (case json_body http_res of
                            Some j \<Rightarrow> j
                          | None \<Rightarrow> JObj [(''message'', JStr (text_of http_res))])
                in case error_message ex of
                     Inl e \<Rightarrow> (Inl e, sent')
                   | Inr msg \<Rightarrow> (Inl (DataikuException msg), sent'))
             else (Inr http_res, sent'))"

definition perform_empty ::
  "server \<Rightarrow> FMClient \<Rightarrow> string \<Rightarrow> string \<Rightarrow> json option \<Rightarrow> json option \<Rightarrow>
   dict option \<Rightarrow> string option \<Rightarrow> request list \<Rightarrow> (exn + unit) \<times> request list" where
  "perform_empty srv self method path params body files raw_body sent =
     (case perform_http srv self method path params body False files raw_body sent of
        (Inl e, sent') \<Rightarrow> (Inl e, sent')
      | (Inr _, sent') \<Rightarrow> (Inr (), sent'))"

definition perform_json ::
  "server \<Rightarrow> FMClient \<Rightarrow> string \<Rightarrow> string \<Rightarrow> json option \<Rightarrow> json option \<Rightarrow>
   dict option \<Rightarrow> string option \<Rightarrow> request list \<Rightarrow> (exn + json) \<times> request list" where
  "perform_json srv self method path params body files raw_body sent =
     (case perform_http srv self method path params body False files raw_body sent of
        (Inl e, sent') \<Rightarrow> (Inl e, sent')
      | (Inr http_res, sent') \<Rightarrow>
          (case json_body http_res of
             None \<Rightarrow> (Inl ValueError, sent')
           | Some j \<Rightarrow> (Inr j, sent')))"

definition perform_tenant_json ::
  "server \<Rightarrow> FMClient \<Rightarrow> string \<Rightarrow> string \<Rightarrow> json option \<Rightarrow> json option \<Rightarrow>
   dict option \<Rightarrow> string option \<Rightarrow> request list \<Rightarrow> (exn + json) \<times> request list" where
  "perform_tenant_json srv self method path params body files raw_body sent =
     perform_json srv self method (''/tenants/'' @ tenant_id self @ path)
       params body files raw_body sent"

definition perform_tenant_empty ::
  "server \<Rightarrow> FMClient \<Rightarrow> string \<Rightarrow> string \<Rightarrow> json option \<Rightarrow> json option \<Rightarrow>
   dict option \<Rightarrow> string option \<Rightarrow> request list \<Rightarrow> (exn + unit) \<times> request list" where
  "perform_tenant_empty srv self method path params body files raw_body sent =
     perform_empty srv self method (''/tenants/'' @ tenant_id self @ path)
       params body files raw_body sent"

text \<open>
  A value handed over as the \<^verbatim>\<open>body\<close> keyword. Python's \<^verbatim>\<open>None\<close> is the JSON null, and a
  body that is \<^verbatim>\<open>None\<close> is no body: it is not serialised and the request carries no data.
\<close>

definition as_body :: "json \<Rightarrow> json option" where
  "as_body v = (if v = JNull then None else Some v)"

section \<open>Futures\<close>

text \<open>
  Modelled from the spec: the module \<^verbatim>\<open>fm/future.py\<close> with \<^verbatim>\<open>FMFuture.from_resp\<close> is not
  among the sources. The spec says that the caller obtains a future from an action's
  response envelope and that the wait operation alone polls the server, so building a
  future keeps the client and the envelope and sends nothing.
\<close>

record FMFuture =
  future_client :: FMClient
  future_resp :: json

definition FMFuture_from_resp :: "FMClient \<Rightarrow> json \<Rightarrow> FMFuture" where
  "FMFuture_from_resp c resp = \<lparr> future_client = c, future_resp = resp \<rparr>"

section \<open>Instances\<close>

datatype cloud_class = AWS | Azure

text \<open>
  A handle is an \<^verbatim>\<open>FMInstance\<close> (\<open>inst_class = None\<close>) or one of its subclasses
  \<^verbatim>\<open>FMAWSInstance\<close> and \<^verbatim>\<open>FMAzureInstance\<close>.
\<close>

record FMInstance =
  inst_class :: "cloud_class option"
  inst_client :: FMClient
  instance_data :: json
  inst_id :: json

definition FMInstance_init :: "cloud_class option \<Rightarrow> FMClient \<Rightarrow> json \<Rightarrow> exn + FMInstance" where
  "FMInstance_init cls c data =
     (case getitem data ''id'' of
        Inl e \<Rightarrow> Inl e
      | Inr i \<Rightarrow> Inr \<lparr> inst_class = cls, inst_client = c, instance_data = data, inst_id = i \<rparr>)"

text \<open>
  \<^verbatim>\<open>FMInstance(client, **x)\<close>: the items of \<open>x\<close> become keyword arguments. The constructor
  has the one parameter \<^verbatim>\<open>instance_data\<close> left to bind, so the call is a \<^verbatim>\<open>TypeError\<close>
  unless \<open>x\<close> is a dict whose only key is that name.
\<close>

definition FMInstance_init_kwargs :: "FMClient \<Rightarrow> json \<Rightarrow> exn + FMInstance" where
  "FMInstance_init_kwargs c x =
     (case x of
        JObj [(k, v)] \<Rightarrow> if k = ''instance_data'' then FMInstance_init None c v else Inl TypeError
      | _ \<Rightarrow> Inl TypeError)"

definition instance_action ::
  "string \<Rightarrow> server \<Rightarrow> FMInstance \<Rightarrow> request list \<Rightarrow> (exn + FMFuture) \<times> request list" where
  "instance_action name srv self sent =
     (case perform_tenant_json srv (inst_client self) ''GET''
             (''/instances/'' @ py_str (inst_id self) @ ''/actions/'' @ name)
             None None None None sent of
        (Inl e, sent') \<Rightarrow> (Inl e, sent')
      | (Inr future, sent') \<Rightarrow> (Inr (FMFuture_from_resp (inst_client self) future), sent'))"

definition reprovision ::
  "server \<Rightarrow> FMInstance \<Rightarrow> request list \<Rightarrow> (exn + FMFuture) \<times> request list" where
  "reprovision = instance_action ''reprovision''"

definition deprovision ::
  "server \<Rightarrow> FMInstance \<Rightarrow> request list \<Rightarrow> (exn + FMFuture) \<times> request list" where
  "deprovision = instance_action ''deprovision''"

definition restart_dss ::
  "server \<Rightarrow> FMInstance \<Rightarrow> request list \<Rightarrow> (exn + FMFuture) \<times> request list" where
  "restart_dss = instance_action ''restart-dss''"

definition delete ::
  "server \<Rightarrow> FMInstance \<Rightarrow> request list \<Rightarrow> (exn + FMFuture) \<times> request list" where
  "delete = instance_action ''delete''"

text \<open>
  Methods that assign to the handle return the outcome, the handle as the call leaves it
  and the requests sent.
\<close>

definition save ::
  "server \<Rightarrow> FMInstance \<Rightarrow> request list \<Rightarrow> (exn + unit) \<times> FMInstance \<times> request list" where
  "save srv self sent =
     (case perform_tenant_empty srv (inst_client self) ''PUT''
             (''/instances/'' @ py_str (inst_id self))
             None (as_body (instance_data self)) None None sent of
        (Inl e, sent1) \<Rightarrow> (Inl e, self, sent1)
      | (Inr _, sent1) \<Rightarrow>
          (case perform_tenant_json srv (inst_client self) ''GET''
                  (''/instances/'' @ py_str (inst_id self))
                  None None None None sent1 of
             (Inl e, sent2) \<Rightarrow> (Inl e, self, sent2)
           | (Inr j, sent2) \<Rightarrow> (Inr (), self\<lparr>instance_data := j\<rparr>, sent2)))"

text \<open>The assignments \<^verbatim>\<open>self.instance_data[k] = v\<close> of a setter, in order, then \<^verbatim>\<open>save\<close>.\<close>

fun assign_and_save ::
  "(string \<times> json) list \<Rightarrow> server \<Rightarrow> FMInstance \<Rightarrow> request list \<Rightarrow>
   (exn + unit) \<times> FMInstance \<times> request list" where
  "assign_and_save [] srv self sent = save srv self sent"
| "assign_and_save ((k, v) # kvs) srv self sent =
     (case setitem (instance_data self) k v of
        Inl e \<Rightarrow> (Inl e, self, sent)
      | Inr d \<Rightarrow> assign_and_save kvs srv (self\<lparr>instance_data := d\<rparr>) sent)"

definition set_automated_snapshots ::
  "json \<Rightarrow> json \<Rightarrow> json \<Rightarrow> server \<Rightarrow> FMInstance \<Rightarrow> request list \<Rightarrow>
   (exn + unit) \<times> FMInstance \<times> request list" where
  "set_automated_snapshots enable period keep =
     assign_and_save
       [(''enableAutomatedSnapshot'', enable),
        (''automatedSnapshotPeriod'', period),
        (''automatedSnapshotRetention'', keep)]"

definition set_custom_certificate ::
  "json \<Rightarrow> server \<Rightarrow> FMInstance \<Rightarrow> request list \<Rightarrow>
   (exn + unit) \<times> FMInstance \<times> request list" where
  "set_custom_certificate pem_data = assign_and_save [(''sslCertificatePEM'', pem_data)]"

text \<open>\<^verbatim>\<open>set_elastic_ip\<close> exists in the two subclasses only.\<close>

definition set_elastic_ip ::
  "json \<Rightarrow> json \<Rightarrow> server \<Rightarrow> FMInstance \<Rightarrow> request list \<Rightarrow>
   (exn + unit) \<times> FMInstance \<times> request list" where
  "set_elastic_ip enable ip_id srv self sent =
     (case inst_class self of
        None \<Rightarrow> (Inl AttributeError, self, sent)
      | Some AWS \<Rightarrow>
          assign_and_save
            [(''awsAssignElasticIP'', enable), (''awsElasticIPAllocationId'', ip_id)]
            srv self sent
      | Some Azure \<Rightarrow>
          assign_and_save
            [(''azureAssignElasticIP'', enable), (''azurePublicIPId'', ip_id)]
            srv self sent)"

subsection \<open>Listing and fetching instances\<close>

text \<open>What a \<^verbatim>\<open>for\<close> loop sees when it iterates over a value.\<close>

definition py_iter :: "json \<Rightarrow> exn + json list" where
  "py_iter v =
     (case v of
        JArr xs \<Rightarrow> Inr xs
      | JObj d \<Rightarrow> Inr (map (\<lambda>kv. JStr (fst kv)) d)
      | JStr s \<Rightarrow> Inr (map (\<lambda>c. JStr [c]) s)
      | _ \<Rightarrow> Inl TypeError)"

text \<open>A list comprehension \<^verbatim>\<open>[f(x) for x in xs]\<close>: the first exception ends it.\<close>

fun comprehension :: "('a \<Rightarrow> exn + 'b) \<Rightarrow> 'a list \<Rightarrow> exn + 'b list" where
  "comprehension f [] = Inr []"
| "comprehension f (x # xs) =
     (case f x of
        Inl e \<Rightarrow> Inl e
      | Inr y \<Rightarrow> (case comprehension f xs of Inl e \<Rightarrow> Inl e | Inr ys \<Rightarrow> Inr (y # ys)))"

definition list_instances ::
  "server \<Rightarrow> FMClient \<Rightarrow> request list \<Rightarrow> (exn + FMInstance list) \<times> request list" where
  "list_instances srv self sent =
     (case perform_tenant_json srv self ''GET'' ''/instances'' None None None None sent of
        (Inl e, sent') \<Rightarrow> (Inl e, sent')
      | (Inr instances, sent') \<Rightarrow>
          (case py_iter instances of
             Inl e \<Rightarrow> (Inl e, sent')
           | Inr xs \<Rightarrow> (comprehension (FMInstance_init_kwargs self) xs, sent')))"

definition get_instance ::
  "server \<Rightarrow> FMClient \<Rightarrow> string \<Rightarrow> request list \<Rightarrow> (exn + FMInstance) \<times> request list" where
  "get_instance srv self instance_id sent =
     (case perform_tenant_json srv self ''GET'' (''/instances/'' @ instance_id)
             None None None None sent of
        (Inl e, sent') \<Rightarrow> (Inl e, sent')
      | (Inr instance, sent') \<Rightarrow> (FMInstance_init None self instance, sent'))"

section \<open>Instance creators\<close>

datatype FMInstanceEncryptionMode = NONE | DEFAULT_KEY | TENANT | CUSTOM

fun mode_value :: "FMInstanceEncryptionMode \<Rightarrow> string" where
  "mode_value NONE = ''NONE''"
| "mode_value DEFAULT_KEY = ''DEFAULT_KEY''"
| "mode_value TENANT = ''TENANT''"
| "mode_value CUSTOM = ''CUSTOM''"

text \<open>An argument that may be a member of the enum or any other value.\<close>

datatype argument = Mode FMInstanceEncryptionMode | Plain json

fun is_mode :: "argument \<Rightarrow> bool" where
  "is_mode (Mode m) = True"
| "is_mode (Plain v) = False"

text \<open>
  A creator is an \<^verbatim>\<open>FMAWSInstanceCreator\<close> or an \<^verbatim>\<open>FMAzureInstanceCreator\<close>; both inherit
  the constructor and the setters of \<^verbatim>\<open>FMInstanceCreator\<close>. A setter returns its outcome
  (\<open>Inr ()\<close> when it returns \<^verbatim>\<open>self\<close>) and the accumulated data as the call leaves it.
\<close>

record FMInstanceCreator =
  ic_class :: cloud_class
  ic_client :: FMClient
  ic_data :: dict

definition FMInstanceCreator_init ::
  "cloud_class \<Rightarrow> FMClient \<Rightarrow> json \<Rightarrow> json \<Rightarrow> json \<Rightarrow> json \<Rightarrow> FMInstanceCreator" where
  "FMInstanceCreator_init cls c label instance_settings_template_id virtual_network_id image_id =
     \<lparr> ic_class = cls, ic_client = c,
       ic_data =
         dict_set ''dssNodeType'' (JStr ''design'')
           (dict_set ''imageId'' image_id
             (dict_set ''virtualNetworkId'' virtual_network_id
               (dict_set ''instanceSettingsTemplateId'' instance_settings_template_id
                 (dict_set ''label'' label [])))) \<rparr>"

definition with_dss_node_type :: "json \<Rightarrow> dict \<Rightarrow> (exn + unit) \<times> dict" where
  "with_dss_node_type dss_node_type d =
     (if dss_node_type \<notin> set [JStr ''design'', JStr ''automation'', JStr ''deployer'']
      then (Inl ValueError, d)
      else (Inr (), dict_set ''dssNodeType'' dss_node_type d))"

definition with_cloud_instance_type :: "json \<Rightarrow> dict \<Rightarrow> (exn + unit) \<times> dict" where
  "with_cloud_instance_type cloud_instance_type d =
     (Inr (), dict_set ''cloudInstanceType'' cloud_instance_type d)"

definition with_data_volume_options ::
  "json \<Rightarrow> json \<Rightarrow> json \<Rightarrow> json \<Rightarrow> argument \<Rightarrow> json \<Rightarrow> dict \<Rightarrow> (exn + unit) \<times> dict" where
  "with_data_volume_options data_volume_type data_volume_size data_volume_size_max
       data_volume_IOPS data_volume_encryption data_volume_encryption_key d =
     (case data_volume_encryption of
        Plain _ \<Rightarrow> (Inl TypeError, d)
      | Mode m \<Rightarrow>
          (Inr (),
           dict_set ''dataVolumeEncryptionKey'' data_volume_encryption_key
             (dict_set ''dataVolumeEncryption'' (JStr (mode_value m))
               (dict_set ''dataVolumeIOPS'' data_volume_IOPS
                 (dict_set ''dataVolumeSizeMaxGB'' data_volume_size_max
                   (dict_set ''dataVolumeSizeGB'' data_volume_size
                     (dict_set ''dataVolumeType'' data_volume_type d)))))))"

definition with_cloud_tags :: "json \<Rightarrow> dict \<Rightarrow> (exn + unit) \<times> dict" where
  "with_cloud_tags cloud_tags d = (Inr (), dict_set ''cloudTags'' cloud_tags d)"

definition with_fm_tags :: "json \<Rightarrow> dict \<Rightarrow> (exn + unit) \<times> dict" where
  "with_fm_tags fm_tags d = (Inr (), dict_set ''fmTags'' fm_tags d)"

definition with_aws_root_volume_options ::
  "json \<Rightarrow> json \<Rightarrow> json \<Rightarrow> dict \<Rightarrow> (exn + unit) \<times> dict" where
  "with_aws_root_volume_options aws_root_volume_size aws_root_volume_type aws_root_volume_IOPS d =
     (Inr (),
      dict_set ''awsRootVolumeIOPS'' aws_root_volume_IOPS
        (dict_set ''awsRootVolumeType'' aws_root_volume_type
          (dict_set ''awsRootVolumeSizeGB'' aws_root_volume_size d)))"

text \<open>
  \<^verbatim>\<open>create\<close> posts the accumulated data and wraps the answer in a handle of the creator's
  cloud, built on the creator's client.
\<close>

definition instance_create ::
  "server \<Rightarrow> FMInstanceCreator \<Rightarrow> request list \<Rightarrow> (exn + FMInstance) \<times> request list" where
  "instance_create srv self sent =
     (case perform_tenant_json srv (ic_client self) ''POST'' ''/instances''
             None (Some (JObj (ic_data self))) None None sent of
        (Inl e, sent') \<Rightarrow> (Inl e, sent')
      | (Inr instance, sent') \<Rightarrow>
          (FMInstance_init (Some (ic_class self)) (ic_client self) instance, sent'))"

definition new_instance_creator ::
  "FMClient \<Rightarrow> json \<Rightarrow> json \<Rightarrow> json \<Rightarrow> json \<Rightarrow> FMInstanceCreator option" where
  "new_instance_creator self label instance_settings_template_id virtual_network_id image_id =
     (if cloud self = ''AWS'' then
        Some (FMInstanceCreator_init AWS self label instance_settings_template_id
                virtual_network_id image_id)
      else if cloud self = ''Azure'' then
        Some (FMInstanceCreator_init Azure self label instance_settings_template_id
                virtual_network_id image_id)
      else None)"

section \<open>Instance settings templates\<close>

record FMInstanceSettingsTemplateCreator =
  tc_class :: cloud_class
  tc_client :: FMClient
  tc_data :: dict

definition FMInstanceSettingsTemplateCreator_init ::
  "cloud_class \<Rightarrow> FMClient \<Rightarrow> json \<Rightarrow> FMInstanceSettingsTemplateCreator" where
  "FMInstanceSettingsTemplateCreator_init cls c label =
     \<lparr> tc_class = cls, tc_client = c, tc_data = dict_set ''label'' label [] \<rparr>"

definition with_setup_actions :: "json \<Rightarrow> dict \<Rightarrow> (exn + unit) \<times> dict" where
  "with_setup_actions setup_actions d = (Inr (), dict_set ''setupActions'' setup_actions d)"

definition with_license :: "json \<Rightarrow> dict \<Rightarrow> (exn + unit) \<times> dict" where
  "with_license license d = (Inr (), dict_set ''license'' license d)"

definition with_aws_keypair :: "json \<Rightarrow> dict \<Rightarrow> (exn + unit) \<times> dict" where
  "with_aws_keypair aws_keypair_name d = (Inr (), dict_set ''awsKeyPairName'' aws_keypair_name d)"

definition with_startup_instance_profile :: "json \<Rightarrow> dict \<Rightarrow> (exn + unit) \<times> dict" where
  "with_startup_instance_profile startup_instance_profile_arn d =
     (Inr (), dict_set ''startupInstanceProfileArn'' startup_instance_profile_arn d)"

definition with_runtime_instance_profile :: "json \<Rightarrow> dict \<Rightarrow> (exn + unit) \<times> dict" where
  "with_runtime_instance_profile runtime_instance_profile_arn d =
     (Inr (), dict_set ''runtimeInstanceProfileArn'' runtime_instance_profile_arn d)"

definition with_restrict_aws_metadata_server_access :: "json \<Rightarrow> dict \<Rightarrow> (exn + unit) \<times> dict" where
  "with_restrict_aws_metadata_server_access restrict_aws_metadata_server_access d =
     (Inr (), dict_set ''restrictAwsMetadataServerAccess'' restrict_aws_metadata_server_access d)"

definition with_default_aws_api_access_mode :: "dict \<Rightarrow> (exn + unit) \<times> dict" where
  "with_default_aws_api_access_mode d =
     (Inr (), dict_set ''dataikuAwsAPIAccessMode'' (JStr ''NONE'') d)"

definition with_keypair_aws_api_access_mode ::
  "json \<Rightarrow> json \<Rightarrow> json \<Rightarrow> json \<Rightarrow> json \<Rightarrow> dict \<Rightarrow> (exn + unit) \<times> dict" where
  "with_keypair_aws_api_access_mode aws_access_key_id aws_keypair_storage_mode
       aws_secret_access_key aws_secret_access_key_aws_secret_name aws_secrets_manager_region d =
     (if aws_keypair_storage_mode \<notin>
           set [JStr ''NONE'', JStr ''INLINE_ENCRYPTED'', JStr ''AWS_SECRETS_MANAGER'']
      then (Inl ValueError, d)
      else
        let d1 = dict_set ''dataikuAwsKeypairStorageMode'' aws_keypair_storage_mode
                   (dict_set ''dataikuAwsAPIAccessMode'' (JStr ''KEYPAIR'') d)
        in if aws_keypair_storage_mode = JStr ''NONE'' then (Inr (), d1)
           else
             let d2 = dict_set ''dataikuAwsAccessKeyId'' aws_access_key_id d1
             in if aws_keypair_storage_mode = JStr ''INLINE_ENCRYPTED'' then
                  (if aws_secret_access_key = JNull then (Inl ValueError, d2)
                   else (Inr (), dict_set ''dataikuAwsSecretAccessKey'' aws_secret_access_key d2))
                else if aws_keypair_storage_mode = JStr ''AWS_SECRETS_MANAGER'' then
                  (if aws_secret_access_key_aws_secret_name = JNull then (Inl ValueError, d2)
                   else
                     (Inr (),
                      dict_set ''awsSecretsManagerRegion'' aws_secrets_manager_region
                        (dict_set ''dataikuAwsSecretAccessKeyAwsSecretName''
                           aws_secret_access_key_aws_secret_name d2)))
                else (Inr (), d2))"

definition with_ssh_key :: "json \<Rightarrow> dict \<Rightarrow> (exn + unit) \<times> dict" where
  "with_ssh_key ssh_public_key d = (Inr (), dict_set ''azureSshKey'' ssh_public_key d)"

definition with_startup_managed_identity :: "json \<Rightarrow> dict \<Rightarrow> (exn + unit) \<times> dict" where
  "with_startup_managed_identity startup_managed_identity d =
     (Inr (), dict_set ''startupManagedIdentity'' startup_managed_identity d)"

definition with_runtime_managed_identity :: "json \<Rightarrow> dict \<Rightarrow> (exn + unit) \<times> dict" where
  "with_runtime_managed_identity runtime_managed_identity d =
     (Inr (), dict_set ''runtimeManagedIdentity'' runtime_managed_identity d)"

definition new_instance_template_creator ::
  "FMClient \<Rightarrow> json \<Rightarrow> FMInstanceSettingsTemplateCreator option" where
  "new_instance_template_creator self label =
     (if cloud self = ''AWS'' then Some (FMInstanceSettingsTemplateCreator_init AWS self label)
      else if cloud self = ''Azure'' then
        Some (FMInstanceSettingsTemplateCreator_init Azure self label)
      else None)"

subsection \<open>Template handles\<close>

text \<open>
  The \<^verbatim>\<open>client\<close> attribute of a template handle holds whatever object the constructor was
  given: an \<^verbatim>\<open>FMClient\<close> or a template creator. Only the former has the request methods;
  looking one up on a creator raises \<^verbatim>\<open>AttributeError\<close>.
\<close>

datatype pyobj = ClientObj FMClient | TemplateCreatorObj FMInstanceSettingsTemplateCreator

record FMInstanceSettingsTemplate =
  ist_client :: pyobj
  ist_id :: json
  ist_data :: json

definition FMInstanceSettingsTemplate_init :: "pyobj \<Rightarrow> json \<Rightarrow> exn + FMInstanceSettingsTemplate" where
  "FMInstanceSettingsTemplate_init c data =
     (case getitem data ''id'' of
        Inl e \<Rightarrow> Inl e
      | Inr i \<Rightarrow> Inr \<lparr> ist_client = c, ist_id = i, ist_data = data \<rparr>)"

definition template_create ::
  "server \<Rightarrow> FMInstanceSettingsTemplateCreator \<Rightarrow> request list \<Rightarrow>
   (exn + FMInstanceSettingsTemplate) \<times> request list" where
  "template_create srv self sent =
     (case perform_tenant_json srv (tc_client self) ''POST'' ''/instance-settings-templates''
             None (Some (JObj (tc_data self))) None None sent of
        (Inl e, sent') \<Rightarrow> (Inl e, sent')
      | (Inr template, sent') \<Rightarrow>
          (FMInstanceSettingsTemplate_init (TemplateCreatorObj self) template, sent'))"

definition get_instance_template ::
  "server \<Rightarrow> FMClient \<Rightarrow> string \<Rightarrow> request list \<Rightarrow>
   (exn + FMInstanceSettingsTemplate) \<times> request list" where
  "get_instance_template srv self template_id sent =
     (case perform_tenant_json srv self ''GET'' (''/instance-settings-templates/'' @ template_id)
             None None None None sent of
        (Inl e, sent') \<Rightarrow> (Inl e, sent')
      | (Inr template, sent') \<Rightarrow>
          (FMInstanceSettingsTemplate_init (ClientObj self) template, sent'))"

definition template_save ::
  "server \<Rightarrow> FMInstanceSettingsTemplate \<Rightarrow> request list \<Rightarrow>
   (exn + unit) \<times> FMInstanceSettingsTemplate \<times> request list" where
  "template_save srv self sent =
     (case ist_client self of
        TemplateCreatorObj _ \<Rightarrow> (Inl AttributeError, self, sent)
      | ClientObj c \<Rightarrow>
          (case perform_tenant_empty srv c ''PUT''
                  (''/instance-settings-templates/'' @ py_str (ist_id self))
                  None (as_body (ist_data self)) None None sent of
             (Inl e, sent1) \<Rightarrow> (Inl e, self, sent1)
           | (Inr _, sent1) \<Rightarrow>
               (case perform_tenant_json srv c ''GET''
                       (''/instance-settings-templates/'' @ py_str (ist_id self))
                       None None None None sent1 of
                  (Inl e, sent2) \<Rightarrow> (Inl e, self, sent2)
                | (Inr j, sent2) \<Rightarrow> (Inr (), self\<lparr>ist_data := j\<rparr>, sent2))))"

definition template_delete ::
  "server \<Rightarrow> FMInstanceSettingsTemplate \<Rightarrow> request list \<Rightarrow> (exn + FMFuture) \<times> request list" where
  "template_delete srv self sent =
     (case ist_client self of
        TemplateCreatorObj _ \<Rightarrow> (Inl AttributeError, sent)
      | ClientObj c \<Rightarrow>
          (case perform_tenant_json srv c ''DELETE''
                  (''/instance-settings-templates/'' @ py_str (ist_id self))
                  None None None None sent of
             (Inl e, sent') \<Rightarrow> (Inl e, sent')
           | (Inr future, sent') \<Rightarrow> (Inr (FMFuture_from_resp c future), sent')))"

section \<open>Builder chains\<close>

text \<open>
  A call of a setter method on a creator: the method and its arguments. The classes
  decide which methods a creator has; calling one that it lacks raises
  \<^verbatim>\<open>AttributeError\<close>.
\<close>

datatype setter =
    With_dss_node_type json
  | With_cloud_instance_type json
  | With_data_volume_options json json json json argument json
  | With_cloud_tags json
  | With_fm_tags json
  | With_aws_root_volume_options json json json
  | With_setup_actions json
  | With_license json
  | With_aws_keypair json
  | With_startup_instance_profile json
  | With_runtime_instance_profile json
  | With_restrict_aws_metadata_server_access json
  | With_default_aws_api_access_mode
  | With_keypair_aws_api_access_mode json json json json json
  | With_ssh_key json
  | With_startup_managed_identity json
  | With_runtime_managed_identity json

datatype creator_class = InstanceCreator cloud_class | TemplateCreator cloud_class

fun setter_name :: "setter \<Rightarrow> string" where
  "setter_name (With_dss_node_type _) = ''with_dss_node_type''"
| "setter_name (With_cloud_instance_type _) = ''with_cloud_instance_type''"
| "setter_name (With_data_volume_options _ _ _ _ _ _) = ''with_data_volume_options''"
| "setter_name (With_cloud_tags _) = ''with_cloud_tags''"
| "setter_name (With_fm_tags _) = ''with_fm_tags''"
| "setter_name (With_aws_root_volume_options _ _ _) = ''with_aws_root_volume_options''"
| "setter_name (With_setup_actions _) = ''with_setup_actions''"
| "setter_name (With_license _) = ''with_license''"
| "setter_name (With_aws_keypair _) = ''with_aws_keypair''"
| "setter_name (With_startup_instance_profile _) = ''with_startup_instance_profile''"
| "setter_name (With_runtime_instance_profile _) = ''with_runtime_instance_profile''"
| "setter_name (With_restrict_aws_metadata_server_access _) =
     ''with_restrict_aws_metadata_server_access''"
| "setter_name With_default_aws_api_access_mode = ''with_default_aws_api_access_mode''"
| "setter_name (With_keypair_aws_api_access_mode _ _ _ _ _) =
     ''with_keypair_aws_api_access_mode''"
| "setter_name (With_ssh_key _) = ''with_ssh_key''"
| "setter_name (With_startup_managed_identity _) = ''with_startup_managed_identity''"
| "setter_name (With_runtime_managed_identity _) = ''with_runtime_managed_identity''"

definition methods_of :: "creator_class \<Rightarrow> string list" where
  "methods_of cls =
     (case cls of
        InstanceCreator c \<Rightarrow>
          [''with_dss_node_type'', ''with_cloud_instance_type'', ''with_data_volume_options'',
           ''with_cloud_tags'', ''with_fm_tags''] @
          (case c of AWS \<Rightarrow> [''with_aws_root_volume_options''] | Azure \<Rightarrow> [])
      | TemplateCreator c \<Rightarrow>
          [''with_setup_actions'', ''with_license''] @
          (case c of
             AWS \<Rightarrow>
               [''with_aws_keypair'', ''with_startup_instance_profile'',
                ''with_runtime_instance_profile'', ''with_restrict_aws_metadata_server_access'',
                ''with_default_aws_api_access_mode'', ''with_keypair_aws_api_access_mode'']
           | Azure \<Rightarrow>
               [''with_ssh_key'', ''with_startup_managed_identity'',
                ''with_runtime_managed_identity'']))"

fun run_setter :: "setter \<Rightarrow> dict \<Rightarrow> (exn + unit) \<times> dict" where
  "run_setter (With_dss_node_type a) = with_dss_node_type a"
| "run_setter (With_cloud_instance_type a) = with_cloud_instance_type a"
| "run_setter (With_data_volume_options a b c d e f) = with_data_volume_options a b c d e f"
| "run_setter (With_cloud_tags a) = with_cloud_tags a"
| "run_setter (With_fm_tags a) = with_fm_tags a"
| "run_setter (With_aws_root_volume_options a b c) = with_aws_root_volume_options a b c"
| "run_setter (With_setup_actions a) = with_setup_actions a"
| "run_setter (With_license a) = with_license a"
| "run_setter (With_aws_keypair a) = with_aws_keypair a"
| "run_setter (With_startup_instance_profile a) = with_startup_instance_profile a"
| "run_setter (With_runtime_instance_profile a) = with_runtime_instance_profile a"
| "run_setter (With_restrict_aws_metadata_server_access a) =
     with_restrict_aws_metadata_server_access a"
| "run_setter With_default_aws_api_access_mode = with_default_aws_api_access_mode"
| "run_setter (With_keypair_aws_api_access_mode a b c d e) =
     with_keypair_aws_api_access_mode a b c d e"
| "run_setter (With_ssh_key a) = with_ssh_key a"
| "run_setter (With_startup_managed_identity a) = with_startup_managed_identity a"
| "run_setter (With_runtime_managed_identity a) = with_runtime_managed_identity a"

definition call_setter :: "creator_class \<Rightarrow> setter \<Rightarrow> dict \<Rightarrow> (exn + unit) \<times> dict" where
  "call_setter cls s d =
     (if setter_name s \<in> set (methods_of cls) then run_setter s d else (Inl AttributeError, d))"

text \<open>\<^verbatim>\<open>creator.with_x(a).with_y(b)\<close>: the data after both calls, or the first exception.\<close>

definition chain2 :: "creator_class \<Rightarrow> setter \<Rightarrow> setter \<Rightarrow> dict \<Rightarrow> exn + dict" where
  "chain2 cls s t d =
     (case call_setter cls s d of
        (Inl e, _) \<Rightarrow> Inl e
      | (Inr _, d1) \<Rightarrow>
          (case call_setter cls t d1 of
             (Inl e, _) \<Rightarrow> Inl e
           | (Inr _, d2) \<Rightarrow> Inr d2))"

text \<open>\<^verbatim>\<open>creator.with_x(a).with_y(b).create()\<close> for the two kinds of creator.\<close>

definition instance_chain ::
  "server \<Rightarrow> setter \<Rightarrow> setter \<Rightarrow> FMInstanceCreator \<Rightarrow> request list \<Rightarrow>
   (exn + FMInstance) \<times> request list" where
  "instance_chain srv s t self sent =
     (case chain2 (InstanceCreator (ic_class self)) s t (ic_data self) of
        Inl e \<Rightarrow> (Inl e, sent)
      | Inr d \<Rightarrow> instance_create srv (self\<lparr>ic_data := d\<rparr>) sent)"

definition template_chain ::
  "server \<Rightarrow> setter \<Rightarrow> setter \<Rightarrow> FMInstanceSettingsTemplateCreator \<Rightarrow> request list \<Rightarrow>
   (exn + FMInstanceSettingsTemplate) \<times> request list" where
  "template_chain srv s t self sent =
     (case chain2 (TemplateCreator (tc_class self)) s t (tc_data self) of
        Inl e \<Rightarrow> (Inl e, sent)
      | Inr d \<Rightarrow> template_create srv (self\<lparr>tc_data := d\<rparr>) sent)"

section \<open>Notions used in the statements\<close>

text \<open>The request that \<^const>\<open>perform_http\<close> hands to the session.\<close>

definition the_request ::
  "FMClient \<Rightarrow> string \<Rightarrow> string \<Rightarrow> json option \<Rightarrow> json option \<Rightarrow> bool \<Rightarrow>
   dict option \<Rightarrow> string option \<Rightarrow> request" where
  "the_request c method path params body stream files raw_body =
     \<lparr> req_method = method, req_url = host c @ ''/api/public'' @ path, req_params = params,
       req_data = (case raw_body of
                     Some r \<Rightarrow> Some r
                   | None \<Rightarrow> (case body of Some b \<Rightarrow> Some (json_dumps b) | None \<Rightarrow> None)),
       req_files = files, req_stream = stream \<rparr>"

text \<open>A tenant-scoped request without parameters, files or raw body.\<close>

definition tenant_request :: "FMClient \<Rightarrow> string \<Rightarrow> string \<Rightarrow> json option \<Rightarrow> request" where
  "tenant_request c method path body =
     the_request c method (''/tenants/'' @ tenant_id c @ path) None body False None None"

text \<open>
  What the request methods make of the session's answer: \<^verbatim>\<open>_perform_http\<close>,
  \<^verbatim>\<open>_perform_json\<close> and \<^verbatim>\<open>_perform_empty\<close> in turn.
\<close>

definition http_outcome :: "answer \<Rightarrow> exn + response" where
  "http_outcome a =
     (case a of
        NoResponse \<Rightarrow> Inl TransportError
      | Response res \<Rightarrow>
          if raises_for_status res then
            (case error_message (case json_body res of
                                   Some j \<Rightarrow> j
                                 | None \<Rightarrow> JObj [(''message'', JStr (text_of res))]) of
               Inl e \<Rightarrow> Inl e
             | Inr msg \<Rightarrow> Inl (DataikuException msg))
          else Inr res)"

definition json_outcome :: "answer \<Rightarrow> exn + json" where
  "json_outcome a =
     (case http_outcome a of
        Inl e \<Rightarrow> Inl e
      | Inr res \<Rightarrow> (case json_body res of None \<Rightarrow> Inl ValueError | Some j \<Rightarrow> Inr j))"

definition empty_outcome :: "answer \<Rightarrow> exn + unit" where
  "empty_outcome a = (case http_outcome a of Inl e \<Rightarrow> Inl e | Inr _ \<Rightarrow> Inr ())"

text \<open>An answer that \<^verbatim>\<open>raise_for_status\<close> lets pass.\<close>

definition accepted :: "answer \<Rightarrow> bool" where
  "accepted a = (case a of NoResponse \<Rightarrow> False | Response res \<Rightarrow> \<not> raises_for_status res)"

text \<open>The two requests of \<^verbatim>\<open>save\<close>, for an instance and for a template held by client \<open>c\<close>.\<close>

definition instance_put :: "FMInstance \<Rightarrow> request" where
  "instance_put h =
     tenant_request (inst_client h) ''PUT'' (''/instances/'' @ py_str (inst_id h))
       (as_body (instance_data h))"

definition instance_get :: "FMInstance \<Rightarrow> request" where
  "instance_get h =
     tenant_request (inst_client h) ''GET'' (''/instances/'' @ py_str (inst_id h)) None"

definition template_put :: "FMClient \<Rightarrow> FMInstanceSettingsTemplate \<Rightarrow> request" where
  "template_put c t =
     tenant_request c ''PUT'' (''/instance-settings-templates/'' @ py_str (ist_id t))
       (as_body (ist_data t))"

definition template_get :: "FMClient \<Rightarrow> FMInstanceSettingsTemplate \<Rightarrow> request" where
  "template_get c t =
     tenant_request c ''GET'' (''/instance-settings-templates/'' @ py_str (ist_id t)) None"

text \<open>
  The requests of one \<^verbatim>\<open>save\<close> of an instance handle: the PUT, and the GET when the PUT's
  answer passes.
\<close>

definition save_requests :: "server \<Rightarrow> FMInstance \<Rightarrow> request list \<Rightarrow> request list" where
  "save_requests srv h sent =
     (if accepted (srv (sent @ [instance_put h])) then [instance_put h, instance_get h]
      else [instance_put h])"

text \<open>The request of an action of an instance handle.\<close>

definition action_request :: "FMInstance \<Rightarrow> string \<Rightarrow> request" where
  "action_request h name =
     tenant_request (inst_client h) ''GET''
       (''/instances/'' @ py_str (inst_id h) @ ''/actions/'' @ name) None"

text \<open>\<open>contains s t\<close>: the text \<open>t\<close> occurs in \<open>s\<close>.\<close>

fun contains :: "string \<Rightarrow> string \<Rightarrow> bool" where
  "contains [] t = (t = [])"
| "contains (c # s) t = (take (length t) (c # s) = t \<or> contains s t)"

text \<open>The field of an error document as the message shows it.\<close>

definition field_or :: "dict \<Rightarrow> string \<Rightarrow> string \<Rightarrow> string" where
  "field_or d k dflt = py_str (case map_of d k of Some v \<Rightarrow> v | None \<Rightarrow> JStr dflt)"

text \<open>
  The keys a setter call assigns when it returns, in order, and for each key the one
  method, up to the two access-mode setters, that assigns it.
\<close>

fun writes :: "setter \<Rightarrow> (string \<times> json) list" where
  "writes (With_dss_node_type a) = [(''dssNodeType'', a)]"
| "writes (With_cloud_instance_type a) = [(''cloudInstanceType'', a)]"
| "writes (With_data_volume_options a b c d e f) =
     [(''dataVolumeType'', a), (''dataVolumeSizeGB'', b), (''dataVolumeSizeMaxGB'', c),
      (''dataVolumeIOPS'', d),
      (''dataVolumeEncryption'', (case e of Mode m \<Rightarrow> JStr (mode_value m) | Plain v \<Rightarrow> v)),
      (''dataVolumeEncryptionKey'', f)]"
| "writes (With_cloud_tags a) = [(''cloudTags'', a)]"
| "writes (With_fm_tags a) = [(''fmTags'', a)]"
| "writes (With_aws_root_volume_options a b c) =
     [(''awsRootVolumeSizeGB'', a), (''awsRootVolumeType'', b), (''awsRootVolumeIOPS'', c)]"
| "writes (With_setup_actions a) = [(''setupActions'', a)]"
| "writes (With_license a) = [(''license'', a)]"
| "writes (With_aws_keypair a) = [(''awsKeyPairName'', a)]"
| "writes (With_startup_instance_profile a) = [(''startupInstanceProfileArn'', a)]"
| "writes (With_runtime_instance_profile a) = [(''runtimeInstanceProfileArn'', a)]"
| "writes (With_restrict_aws_metadata_server_access a) = [(''restrictAwsMetadataServerAccess'', a)]"
| "writes With_default_aws_api_access_mode = [(''dataikuAwsAPIAccessMode'', JStr ''NONE'')]"
| "writes (With_keypair_aws_api_access_mode k m sk sn rg) =
     [(''dataikuAwsAPIAccessMode'', JStr ''KEYPAIR''), (''dataikuAwsKeypairStorageMode'', m)] @
     (if m = JStr ''NONE'' then []
      else [(''dataikuAwsAccessKeyId'', k)] @
        (if m = JStr ''INLINE_ENCRYPTED'' then [(''dataikuAwsSecretAccessKey'', sk)]
         else [(''dataikuAwsSecretAccessKeyAwsSecretName'', sn), (''awsSecretsManagerRegion'', rg)]))"
| "writes (With_ssh_key a) = [(''azureSshKey'', a)]"
| "writes (With_startup_managed_identity a) = [(''startupManagedIdentity'', a)]"
| "writes (With_runtime_managed_identity a) = [(''runtimeManagedIdentity'', a)]"

definition key_owner :: "string \<Rightarrow> string" where
  "key_owner k =
     (case map_of
        [(''dssNodeType'', ''with_dss_node_type''),
         (''cloudInstanceType'', ''with_cloud_instance_type''),
         (''dataVolumeType'', ''with_data_volume_options''),
         (''dataVolumeSizeGB'', ''with_data_volume_options''),
         (''dataVolumeSizeMaxGB'', ''with_data_volume_options''),
         (''dataVolumeIOPS'', ''with_data_volume_options''),
         (''dataVolumeEncryption'', ''with_data_volume_options''),
         (''dataVolumeEncryptionKey'', ''with_data_volume_options''),
         (''cloudTags'', ''with_cloud_tags''),
         (''fmTags'', ''with_fm_tags''),
         (''awsRootVolumeSizeGB'', ''with_aws_root_volume_options''),
         (''awsRootVolumeType'', ''with_aws_root_volume_options''),
         (''awsRootVolumeIOPS'', ''with_aws_root_volume_options''),
         (''setupActions'', ''with_setup_actions''),
         (''license'', ''with_license''),
         (''awsKeyPairName'', ''with_aws_keypair''),
         (''startupInstanceProfileArn'', ''with_startup_instance_profile''),
         (''runtimeInstanceProfileArn'', ''with_runtime_instance_profile''),
         (''restrictAwsMetadataServerAccess'', ''with_restrict_aws_metadata_server_access''),
         (''dataikuAwsAPIAccessMode'', ''with_keypair_aws_api_access_mode''),
         (''dataikuAwsKeypairStorageMode'', ''with_keypair_aws_api_access_mode''),
         (''dataikuAwsAccessKeyId'', ''with_keypair_aws_api_access_mode''),
         (''dataikuAwsSecretAccessKey'', ''with_keypair_aws_api_access_mode''),
         (''dataikuAwsSecretAccessKeyAwsSecretName'', ''with_keypair_aws_api_access_mode''),
         (''awsSecretsManagerRegion'', ''with_keypair_aws_api_access_mode''),
         (''azureSshKey'', ''with_ssh_key''),
         (''startupManagedIdentity'', ''with_startup_managed_identity''),
         (''runtimeManagedIdentity'', ''with_runtime_managed_identity'')] k of
        Some n \<Rightarrow> n
      | None \<Rightarrow> [])"

definition owner_name :: "string \<Rightarrow> string" where
  "owner_name n =
     (if n = ''with_default_aws_api_access_mode'' then ''with_keypair_aws_api_access_mode''
      else n)"

fun assign_all :: "(string \<times> json) list \<Rightarrow> dict \<Rightarrow> dict" where
  "assign_all [] d = d"
| "assign_all ((k, v) # kvs) d = assign_all kvs (dict_set k v d)"

text \<open>Concrete clients, handles and servers for the closed statements.\<close>

definition client0 :: FMClient where
  "client0 =
     \<lparr> api_key_id = ''key'', api_key_secret = ''secret'', host = ''https://fm'',
       cloud = ''AWS'', tenant_id = ''main'', session_auth = Some (''key'', ''secret''),
       session_headers = [] \<rparr>"

definition instance0 :: FMInstance where
  "instance0 =
     \<lparr> inst_class = None, inst_client = client0,
       instance_data = JObj [(''id'', JStr ''i-1''), (''label'', JStr ''dev'')],
       inst_id = JStr ''i-1'' \<rparr>"

definition template0 :: FMInstanceSettingsTemplate where
  "template0 =
     \<lparr> ist_client = ClientObj client0, ist_id = JStr ''ist-1'',
       ist_data = JObj [(''id'', JStr ''ist-1''), (''label'', JStr ''base'')] \<rparr>"

definition creator0 :: FMInstanceSettingsTemplateCreator where
  "creator0 = FMInstanceSettingsTemplateCreator_init AWS client0 (JStr ''base'')"

definition icreator0 :: FMInstanceCreator where
  "icreator0 =
     FMInstanceCreator_init AWS client0 (JStr ''dev'') (JStr ''ist-1'') (JStr ''vn-1'')
       (JStr ''dss-9.0.3-default'')"

definition always :: "response \<Rightarrow> server" where
  "always r = (\<lambda>sent. Response r)"

definition ok_json :: "json \<Rightarrow> response" where
  "ok_json j = \<lparr> status_code = 200, text_of = json_dumps j, json_body = Some j \<rparr>"

section \<open>Basic facts about the transport\<close>

lemma contains_here: "contains (t @ post) t"
proof (cases "t @ post")
  case Nil
  then show ?thesis by simp
next
  case (Cons a l)
  have "take (length t) (t @ post) = t" by simp
  then show ?thesis using Cons by (metis contains.simps(2))
qed

lemma contains_append: "contains (pre @ t @ post) t"
  by (induction pre) (auto simp: contains_here)

lemma perform_http_sent:
  "snd (perform_http srv c m p ps b st f r sent) = sent @ [the_request c m p ps b st f r]"
  by (simp add: perform_http_def the_request_def Let_def
           split: answer.splits sum.splits option.splits)

lemma perform_http_result:
  "fst (perform_http srv c m p ps b st f r sent) =
     (case srv (sent @ [the_request c m p ps b st f r]) of
        NoResponse \<Rightarrow> Inl TransportError
      | Response res \<Rightarrow>
          if raises_for_status res then
            (case error_message (case json_body res of
                                   Some j \<Rightarrow> j
                                 | None \<Rightarrow> JObj [(''message'', JStr (text_of res))]) of
               Inl e \<Rightarrow> Inl e
             | Inr msg \<Rightarrow> Inl (DataikuException msg))
          else Inr res)"
  by (simp add: perform_http_def the_request_def Let_def
           split: answer.splits sum.splits option.splits)

lemma perform_json_sent:
  "snd (perform_json srv c m p ps b f r sent) = sent @ [the_request c m p ps b False f r]"
  using perform_http_sent [of srv c m p ps b False f r sent]
  by (cases "perform_http srv c m p ps b False f r sent")
     (auto simp: perform_json_def split: sum.splits option.splits)

lemma perform_empty_sent:
  "snd (perform_empty srv c m p ps b f r sent) = sent @ [the_request c m p ps b False f r]"
  using perform_http_sent [of srv c m p ps b False f r sent]
  by (cases "perform_http srv c m p ps b False f r sent")
     (auto simp: perform_empty_def split: sum.splits)

lemma perform_http_eq:
  "perform_http srv c m p ps b st f r sent =
     (http_outcome (srv (sent @ [the_request c m p ps b st f r])),
      sent @ [the_request c m p ps b st f r])"
  by (simp add: prod_eq_iff perform_http_sent perform_http_result http_outcome_def)

lemma perform_tenant_json_eq:
  "perform_tenant_json srv c m p None b None None sent =
     (json_outcome (srv (sent @ [tenant_request c m p b])), sent @ [tenant_request c m p b])"
  by (simp add: perform_tenant_json_def perform_json_def perform_http_eq json_outcome_def
        tenant_request_def split: sum.splits option.splits)

lemma perform_tenant_empty_eq:
  "perform_tenant_empty srv c m p None b None None sent =
     (empty_outcome (srv (sent @ [tenant_request c m p b])), sent @ [tenant_request c m p b])"
  by (simp add: perform_tenant_empty_def perform_empty_def perform_http_eq empty_outcome_def
        tenant_request_def split: sum.splits)

lemma error_message_obj:
  "error_message (JObj d) =
     Inr (field_or d ''errorType'' ''Unknown error'' @ '': '' @ field_or d ''message'' ''No message'')"
  by (simp add: error_message_def get_default_def field_or_def split: option.splits)

lemma field_or_str: "map_of d k = Some (JStr t) \<Longrightarrow> field_or d k dflt = t"
  by (simp add: field_or_def py_str_def)

lemma save_eq:
  "save srv h sent =
     (case empty_outcome (srv (sent @ [instance_put h])) of
        Inl e \<Rightarrow> (Inl e, h, sent @ [instance_put h])
      | Inr _ \<Rightarrow>
          (case json_outcome (srv (sent @ [instance_put h, instance_get h])) of
             Inl e \<Rightarrow> (Inl e, h, sent @ [instance_put h, instance_get h])
           | Inr j \<Rightarrow> (Inr (), h\<lparr>instance_data := j\<rparr>, sent @ [instance_put h, instance_get h])))"
  by (simp add: save_def perform_tenant_empty_eq perform_tenant_json_eq instance_put_def
        instance_get_def split: sum.splits)

lemma template_save_eq:
  "ist_client t = ClientObj c \<Longrightarrow>
   template_save srv t sent =
     (case empty_outcome (srv (sent @ [template_put c t])) of
        Inl e \<Rightarrow> (Inl e, t, sent @ [template_put c t])
      | Inr _ \<Rightarrow>
          (case json_outcome (srv (sent @ [template_put c t, template_get c t])) of
             Inl e \<Rightarrow> (Inl e, t, sent @ [template_put c t, template_get c t])
           | Inr j \<Rightarrow> (Inr (), t\<lparr>ist_data := j\<rparr>, sent @ [template_put c t, template_get c t])))"
  by (simp add: template_save_def perform_tenant_empty_eq perform_tenant_json_eq template_put_def
        template_get_def split: sum.splits)

lemma empty_outcome_accepted: "(empty_outcome a = Inr ()) = accepted a"
  by (simp add: empty_outcome_def http_outcome_def accepted_def error_message_def
           split: answer.splits sum.splits option.splits)

lemma empty_outcome_cases: "(\<exists>e. empty_outcome a = Inl e) \<or> empty_outcome a = Inr ()"
  by (cases "empty_outcome a") auto

lemma json_outcome_Inr:
  "json_outcome a = Inr j \<Longrightarrow> \<exists>res. a = Response res \<and> json_body res = Some j"
  by (auto simp: json_outcome_def http_outcome_def split: answer.splits sum.splits option.splits if_splits)

lemma json_outcome_Response:
  "\<not> raises_for_status res \<Longrightarrow> json_body res = Some j \<Longrightarrow> json_outcome (Response res) = Inr j"
  by (simp add: json_outcome_def http_outcome_def)

lemma accepted_ok_json: "accepted (always (ok_json j) sent)"
  by (simp add: accepted_def always_def ok_json_def raises_for_status_def)

lemma instance_action_eq:
  "instance_action name srv h sent =
     (case json_outcome (srv (sent @ [action_request h name])) of
        Inl e \<Rightarrow> Inl e
      | Inr future \<Rightarrow> Inr (FMFuture_from_resp (inst_client h) future),
      sent @ [action_request h name])"
  by (simp add: instance_action_def perform_tenant_json_eq action_request_def split: sum.splits)

lemma template_delete_sent:
  "ist_client t = ClientObj c \<Longrightarrow>
   snd (template_delete srv t sent) =
     sent @ [tenant_request c ''DELETE''
               (''/instance-settings-templates/'' @ py_str (ist_id t)) None]"
  by (simp add: template_delete_def perform_tenant_json_eq split: sum.splits)

lemma save_sent_le:
  "\<exists>rest. snd (snd (save srv h sent)) = sent @ rest \<and> length rest \<le> 2"
  by (auto simp: save_eq split: sum.splits)

lemma assign_and_save_sent_le:
  "\<exists>rest. snd (snd (assign_and_save kvs srv h sent)) = sent @ rest \<and> length rest \<le> 2"
proof (induction kvs arbitrary: h)
  case Nil
  then show ?case using save_sent_le by simp
next
  case (Cons kv kvs)
  obtain k v where kv: "kv = (k, v)" by (cases kv)
  show ?case
  proof (cases "setitem (instance_data h) k v")
    case (Inl e)
    then show ?thesis using kv by simp
  next
    case (Inr d)
    then show ?thesis using kv Cons.IH [of "h\<lparr>instance_data := d\<rparr>"] by simp
  qed
qed

lemma list_instances_first_with_id:
  assumes "json_outcome (srv (sent @ [tenant_request c ''GET'' ''/instances'' None]))
             = Inr (JArr (JObj d # xs))"
      and "map_of d ''id'' = Some i"
  shows "fst (list_instances srv c sent) = Inl TypeError"
proof -
  have "d \<noteq> []" using assms(2) by auto
  then obtain k v d' where d: "d = (k, v) # d'" by (cases d) auto
  have "FMInstance_init_kwargs c (JObj d) = Inl TypeError"
  proof (cases d')
    case Nil
    then have "k = ''id''" using assms(2) d by (auto split: if_splits)
    then show ?thesis using d Nil by (simp add: FMInstance_init_kwargs_def)
  next
    case (Cons a l)
    then show ?thesis using d by (simp add: FMInstance_init_kwargs_def)
  qed
  then show ?thesis
    using assms(1) by (simp add: list_instances_def perform_tenant_json_eq py_iter_def)
qed

subsection \<open>What a save sends and what the setters of a handle assign\<close>

lemma save_sent: "snd (snd (save srv h sent)) = sent @ save_requests srv h sent"
  by (auto simp: save_eq save_requests_def empty_outcome_accepted [symmetric]
           split: sum.splits)

lemma put_data:
  "req_method (instance_put h) = ''PUT''"
  "req_url (instance_put h) =
     host (inst_client h) @ ''/api/public/tenants/'' @ tenant_id (inst_client h) @
     ''/instances/'' @ py_str (inst_id h)"
  "req_data (instance_put h) =
     (if instance_data h = JNull then None else Some (json_dumps (instance_data h)))"
  "req_method (instance_get h) = ''GET''"
  "req_url (instance_get h) = req_url (instance_put h)"
  "req_data (instance_get h) = None"
  by (simp_all add: instance_put_def instance_get_def tenant_request_def the_request_def
        as_body_def)

lemma template_put_data:
  "req_method (template_put c t) = ''PUT''"
  "req_url (template_put c t) =
     host c @ ''/api/public/tenants/'' @ tenant_id c @
     ''/instance-settings-templates/'' @ py_str (ist_id t)"
  "req_data (template_put c t) =
     (if ist_data t = JNull then None else Some (json_dumps (ist_data t)))"
  "req_method (template_get c t) = ''GET''"
  "req_url (template_get c t) = req_url (template_put c t)"
  "req_data (template_get c t) = None"
  by (simp_all add: template_put_def template_get_def tenant_request_def the_request_def
        as_body_def)

lemma assign_and_save_dict:
  "assign_and_save kvs srv (h\<lparr>instance_data := JObj d\<rparr>) sent =
     save srv (h\<lparr>instance_data := JObj (assign_all kvs d)\<rparr>) sent"
  by (induction kvs arbitrary: d) (auto simp: setitem_def)

lemma assign_and_save_dict':
  "instance_data h = JObj d \<Longrightarrow>
   assign_and_save kvs srv h sent = save srv (h\<lparr>instance_data := JObj (assign_all kvs d)\<rparr>) sent"
  using assign_and_save_dict [where kvs = kvs and srv = srv and h = h and d = d and sent = sent]
  by (cases h) simp

lemma assign_and_save_not_dict:
  "\<forall>d. instance_data h \<noteq> JObj d \<Longrightarrow> assign_and_save (kv # kvs) srv h sent = (Inl TypeError, h, sent)"
  by (cases kv; cases "instance_data h") (auto simp: setitem_def)

subsection \<open>What the setters assign\<close>

lemma map_of_dict_set: "map_of (dict_set k v d) = (map_of d)(k \<mapsto> v)"
  by (simp add: dict_set_def update_conv')

lemma map_of_assign_all: "map_of (assign_all kvs d) = map_of d ++ map_of (rev kvs)"
proof (induction kvs arbitrary: d)
  case Nil
  then show ?case by simp
next
  case (Cons kv kvs)
  obtain k v where kv: "kv = (k, v)" by (cases kv)
  have "map_of (assign_all (kv # kvs) d) = map_of (dict_set k v d) ++ map_of (rev kvs)"
    using Cons.IH [of "dict_set k v d"] kv by simp
  also have "\<dots> = (map_of d ++ [k \<mapsto> v]) ++ map_of (rev kvs)"
    by (simp only: map_of_dict_set map_add_upd map_add_empty)
  also have "\<dots> = map_of d ++ map_of (rev (kv # kvs))"
    using kv by (simp only: map_add_assoc rev.simps map_of_append map_of.simps fst_conv snd_conv)
  finally show ?case .
qed

lemma keypair_writes:
  "with_keypair_aws_api_access_mode a b c d e dd = (Inr (), d') \<Longrightarrow>
   d' = assign_all (writes (With_keypair_aws_api_access_mode a b c d e)) dd"
  by (auto simp: with_keypair_aws_api_access_mode_def Let_def split: if_splits)

lemma volume_writes:
  "with_data_volume_options a b c d e f dd = (Inr (), d') \<Longrightarrow>
   d' = assign_all (writes (With_data_volume_options a b c d e f)) dd"
  by (cases e) (auto simp: with_data_volume_options_def)

lemma run_setter_writes:
  assumes "run_setter s d = (Inr (), d')"
  shows "d' = assign_all (writes s) d"
proof (cases s)
  case (With_dss_node_type a)
  then show ?thesis using assms by (auto simp: with_dss_node_type_def split: if_splits)
next
  case (With_data_volume_options a b c d e f)
  then show ?thesis using assms volume_writes by simp
next
  case (With_keypair_aws_api_access_mode a b c d e)
  then show ?thesis using assms keypair_writes by simp
qed (use assms in \<open>auto simp: with_cloud_instance_type_def with_cloud_tags_def with_fm_tags_def
        with_aws_root_volume_options_def with_setup_actions_def with_license_def
        with_aws_keypair_def with_startup_instance_profile_def
        with_runtime_instance_profile_def with_restrict_aws_metadata_server_access_def
        with_default_aws_api_access_mode_def
        with_ssh_key_def with_startup_managed_identity_def with_runtime_managed_identity_def\<close>)

lemma key_owner_simps:
  "key_owner ''dssNodeType'' = ''with_dss_node_type''"
  "key_owner ''cloudInstanceType'' = ''with_cloud_instance_type''"
  "key_owner ''dataVolumeType'' = ''with_data_volume_options''"
  "key_owner ''dataVolumeSizeGB'' = ''with_data_volume_options''"
  "key_owner ''dataVolumeSizeMaxGB'' = ''with_data_volume_options''"
  "key_owner ''dataVolumeIOPS'' = ''with_data_volume_options''"
  "key_owner ''dataVolumeEncryption'' = ''with_data_volume_options''"
  "key_owner ''dataVolumeEncryptionKey'' = ''with_data_volume_options''"
  "key_owner ''cloudTags'' = ''with_cloud_tags''"
  "key_owner ''fmTags'' = ''with_fm_tags''"
  "key_owner ''awsRootVolumeSizeGB'' = ''with_aws_root_volume_options''"
  "key_owner ''awsRootVolumeType'' = ''with_aws_root_volume_options''"
  "key_owner ''awsRootVolumeIOPS'' = ''with_aws_root_volume_options''"
  "key_owner ''setupActions'' = ''with_setup_actions''"
  "key_owner ''license'' = ''with_license''"
  "key_owner ''awsKeyPairName'' = ''with_aws_keypair''"
  "key_owner ''startupInstanceProfileArn'' = ''with_startup_instance_profile''"
  "key_owner ''runtimeInstanceProfileArn'' = ''with_runtime_instance_profile''"
  "key_owner ''restrictAwsMetadataServerAccess'' = ''with_restrict_aws_metadata_server_access''"
  "key_owner ''dataikuAwsAPIAccessMode'' = ''with_keypair_aws_api_access_mode''"
  "key_owner ''dataikuAwsKeypairStorageMode'' = ''with_keypair_aws_api_access_mode''"
  "key_owner ''dataikuAwsAccessKeyId'' = ''with_keypair_aws_api_access_mode''"
  "key_owner ''dataikuAwsSecretAccessKey'' = ''with_keypair_aws_api_access_mode''"
  "key_owner ''dataikuAwsSecretAccessKeyAwsSecretName'' = ''with_keypair_aws_api_access_mode''"
  "key_owner ''awsSecretsManagerRegion'' = ''with_keypair_aws_api_access_mode''"
  "key_owner ''azureSshKey'' = ''with_ssh_key''"
  "key_owner ''startupManagedIdentity'' = ''with_startup_managed_identity''"
  "key_owner ''runtimeManagedIdentity'' = ''with_runtime_managed_identity''"
  by (simp_all add: key_owner_def)

lemma owner_name_simps:
  "owner_name ''with_default_aws_api_access_mode'' = ''with_keypair_aws_api_access_mode''"
  "owner_name ''with_keypair_aws_api_access_mode'' = ''with_keypair_aws_api_access_mode''"
  by (simp_all add: owner_name_def)

lemma owner_name_other:
  "n \<noteq> ''with_default_aws_api_access_mode'' \<Longrightarrow> owner_name n = n"
  by (simp add: owner_name_def)

lemma keypair_owner:
  "(k, v) \<in> set (writes (With_keypair_aws_api_access_mode a b c d e)) \<Longrightarrow>
   key_owner k = ''with_keypair_aws_api_access_mode''"
  by (auto simp: key_owner_simps split: if_splits)

lemma writes_owner:
  assumes "(k, v) \<in> set (writes s)"
  shows "key_owner k = owner_name (setter_name s)"
proof (cases s)
  case (With_keypair_aws_api_access_mode a b c d e)
  then show ?thesis using assms keypair_owner by (simp add: owner_name_simps)
next
  case With_default_aws_api_access_mode
  then show ?thesis using assms by (simp add: owner_name_simps key_owner_simps)
qed (use assms in \<open>auto simp: key_owner_simps owner_name_other\<close>)

lemma dom_writes: "dom (map_of (rev (writes s))) = fst ` set (writes s)"
  by (simp add: dom_map_of_conv_image_fst)

lemma writes_disjoint:
  assumes "owner_name (setter_name s) \<noteq> owner_name (setter_name t)"
  shows "fst ` set (writes s) \<inter> fst ` set (writes t) = {}"
proof (rule ccontr)
  assume "fst ` set (writes s) \<inter> fst ` set (writes t) \<noteq> {}"
  then obtain k v w where kv: "(k, v) \<in> set (writes s)" and kw: "(k, w) \<in> set (writes t)"
    by auto
  have "key_owner k = owner_name (setter_name s)" using kv by (rule writes_owner)
  moreover have "key_owner k = owner_name (setter_name t)" using kw by (rule writes_owner)
  ultimately show False using assms by simp
qed

lemma distinct_names_owner:
  assumes "n \<noteq> n'"
      and "{n, n'} \<noteq> {''with_default_aws_api_access_mode'', ''with_keypair_aws_api_access_mode''}"
  shows "owner_name n \<noteq> owner_name n'"
  using assms by (auto simp: owner_name_def doubleton_eq_iff split: if_splits)

lemma call_setter_writes:
  "call_setter cls s d = (Inr u, d') \<Longrightarrow> d' = assign_all (writes s) d"
  by (auto simp: call_setter_def split: if_splits dest: run_setter_writes)

lemma chain2_writes:
  assumes "chain2 cls s t d = Inr d'"
  shows "d' = assign_all (writes t) (assign_all (writes s) d)"
  using assms
  by (auto simp: chain2_def split: prod.splits sum.splits dest!: call_setter_writes)

lemma instance_create_sent:
  "snd (instance_create srv cr sent) =
     sent @ [tenant_request (ic_client cr) ''POST'' ''/instances'' (Some (JObj (ic_data cr)))]"
  by (simp add: instance_create_def perform_tenant_json_eq split: sum.splits)

lemma template_create_sent:
  "snd (template_create srv cr sent) =
     sent @ [tenant_request (tc_client cr) ''POST'' ''/instance-settings-templates''
               (Some (JObj (tc_data cr)))]"
  by (simp add: template_create_def perform_tenant_json_eq split: sum.splits)

lemma chain2_license_actions:
  "chain2 (TemplateCreator AWS) (With_license (JStr ''L'')) (With_setup_actions (JArr []))
     [(''label'', JStr ''base'')]
     = Inr [(''label'', JStr ''base''), (''license'', JStr ''L''), (''setupActions'', JArr [])]"
  "chain2 (TemplateCreator AWS) (With_setup_actions (JArr [])) (With_license (JStr ''L''))
     [(''label'', JStr ''base'')]
     = Inr [(''label'', JStr ''base''), (''setupActions'', JArr []), (''license'', JStr ''L'')]"
  by (simp_all add: chain2_def call_setter_def methods_of_def with_license_def
        with_setup_actions_def dict_set_def)

lemma icreator0_data:
  "ic_data icreator0 =
     [(''label'', JStr ''dev''), (''instanceSettingsTemplateId'', JStr ''ist-1''),
      (''virtualNetworkId'', JStr ''vn-1''), (''imageId'', JStr ''dss-9.0.3-default''),
      (''dssNodeType'', JStr ''design'')]"
  "ic_class icreator0 = AWS"
  "ic_client icreator0 = client0"
  by (simp_all add: icreator0_def FMInstanceCreator_init_def dict_set_def)

lemma chain2_tags:
  "chain2 (InstanceCreator AWS) (With_cloud_tags (JObj [])) (With_fm_tags (JArr [JStr ''blue'']))
     (ic_data icreator0)
     = Inr (ic_data icreator0 @ [(''cloudTags'', JObj []), (''fmTags'', JArr [JStr ''blue''])])"
  "chain2 (InstanceCreator AWS) (With_fm_tags (JArr [JStr ''blue''])) (With_cloud_tags (JObj []))
     (ic_data icreator0)
     = Inr (ic_data icreator0 @ [(''fmTags'', JArr [JStr ''blue'']), (''cloudTags'', JObj [])])"
  by (simp_all add: icreator0_data chain2_def call_setter_def methods_of_def with_cloud_tags_def
        with_fm_tags_def dict_set_def)

lemma chain_bodies:
  "map req_data
     (snd (template_chain (always (ok_json (JObj [(''id'', JStr ''ist-1'')])))
             With_default_aws_api_access_mode
             (With_keypair_aws_api_access_mode (JStr ''AKIA'') (JStr ''NONE'') JNull JNull JNull)
             creator0 []))
     = [Some ''{\"label\": \"base\", \"dataikuAwsAPIAccessMode\": \"KEYPAIR\", \"dataikuAwsKeypairStorageMode\": \"NONE\"}'']
   \<and> map req_data
     (snd (template_chain (always (ok_json (JObj [(''id'', JStr ''ist-1'')])))
             (With_keypair_aws_api_access_mode (JStr ''AKIA'') (JStr ''NONE'') JNull JNull JNull)
             With_default_aws_api_access_mode
             creator0 []))
     = [Some ''{\"label\": \"base\", \"dataikuAwsAPIAccessMode\": \"NONE\", \"dataikuAwsKeypairStorageMode\": \"NONE\"}'']
   \<and> map req_data
     (snd (template_chain (always (ok_json (JObj [(''id'', JStr ''ist-1'')])))
             (With_license (JStr ''L'')) (With_setup_actions (JArr [])) creator0 []))
     = [Some ''{\"label\": \"base\", \"license\": \"L\", \"setupActions\": []}'']
   \<and> map req_data
     (snd (template_chain (always (ok_json (JObj [(''id'', JStr ''ist-1'')])))
             (With_setup_actions (JArr [])) (With_license (JStr ''L'')) creator0 []))
     = [Some ''{\"label\": \"base\", \"setupActions\": [], \"license\": \"L\"}'']"
  by (simp add: template_chain_def template_create_sent chain2_def call_setter_def
        methods_of_def with_license_def with_setup_actions_def
        with_default_aws_api_access_mode_def with_keypair_aws_api_access_mode_def
        creator0_def FMInstanceSettingsTemplateCreator_init_def dict_set_def
        tenant_request_def the_request_def dumps_str_def dumps_char_def)

section \<open>Tenant-scoped requests\<close>

text \<open>
  C7. For every method, path and payload, \<^verbatim>\<open>_perform_tenant_json\<close> and
  \<^verbatim>\<open>_perform_tenant_empty\<close> behave as \<^verbatim>\<open>_perform_json\<close> and \<^verbatim>\<open>_perform_empty\<close> do on the
  path prefixed with \<^verbatim>\<open>/tenants/{tenantId}\<close>: same outcome, and the one request sent goes to
  the host's public API root followed by the prefixed path.
\<close>

theorem tenant_variants_prefix_path:
  "perform_tenant_json srv c m p ps b f r sent =
     perform_json srv c m (''/tenants/'' @ tenant_id c @ p) ps b f r sent
   \<and> perform_tenant_empty srv c m p ps b f r sent =
     perform_empty srv c m (''/tenants/'' @ tenant_id c @ p) ps b f r sent
   \<and> snd (perform_tenant_json srv c m p ps b f r sent) =
     sent @ [the_request c m (''/tenants/'' @ tenant_id c @ p) ps b False f r]
   \<and> snd (perform_tenant_empty srv c m p ps b f r sent) =
     sent @ [the_request c m (''/tenants/'' @ tenant_id c @ p) ps b False f r]
   \<and> req_url (the_request c m (''/tenants/'' @ tenant_id c @ p) ps b False f r) =
     host c @ ''/api/public/tenants/'' @ tenant_id c @ p"
  by (simp add: perform_tenant_json_def perform_tenant_empty_def perform_json_sent
        perform_empty_sent the_request_def)

section \<open>Body and raw body\<close>

text \<open>
  C10. When \<^verbatim>\<open>_perform_http\<close> is given both a body and a raw body, the request carries the
  raw body alone as its payload, and the call behaves as if no body had been given: the
  serialised body is dropped.
\<close>

theorem raw_body_takes_precedence:
  "snd (perform_http srv c m p ps (Some b) st f (Some raw) sent) =
     sent @ [\<lparr> req_method = m, req_url = host c @ ''/api/public'' @ p, req_params = ps,
               req_data = Some raw, req_files = f, req_stream = st \<rparr>]
   \<and> perform_http srv c m p ps (Some b) st f (Some raw) sent =
     perform_http srv c m p ps None st f (Some raw) sent"
  by (simp add: perform_http_def Let_def split: answer.splits sum.splits option.splits)

section \<open>Constructing a client\<close>

text \<open>
  C8. Constructing an \<^verbatim>\<open>FMClient\<close> raises \<^verbatim>\<open>ValueError\<close>, and yields no client, whenever
  the cloud is neither \<^verbatim>\<open>"AWS"\<close> nor \<^verbatim>\<open>"Azure"\<close> or one of the two API key arguments is
  \<^verbatim>\<open>None\<close>. Every client that is constructed has one of the two clouds, so
  \<^verbatim>\<open>new_instance_creator\<close> and \<^verbatim>\<open>new_instance_template_creator\<close> return a creator, never
  \<^verbatim>\<open>None\<close>.
\<close>

theorem client_construction_validates:
  "(cl \<noteq> ''AWS'' \<and> cl \<noteq> ''Azure'' \<or> kid = None \<or> ksec = None \<longrightarrow>
      FMClient_init h kid ksec cl tn hdrs = Inl ValueError)
   \<and> (FMClient_init h kid ksec cl tn hdrs = Inr c \<longrightarrow>
        (cloud c = ''AWS'' \<or> cloud c = ''Azure'')
        \<and> new_instance_creator c label tmpl vn img \<noteq> None
        \<and> new_instance_template_creator c label \<noteq> None)"
  by (auto simp: FMClient_init_def new_instance_creator_def new_instance_template_creator_def
           split: option.splits if_splits)

theorem client_construction_validates_witness:
  "FMClient_init ''https://fm'' None (Some ''secret'') ''AWS'' ''main'' None = Inl ValueError
   \<and> FMClient_init ''https://fm'' (Some ''key'') (Some ''secret'') ''GCP'' ''main'' None
       = Inl ValueError
   \<and> FMClient_init ''https://fm'' (Some ''key'') (Some ''secret'') ''AWS'' ''main'' None
       = Inr client0
   \<and> new_instance_creator client0 (JStr ''l'') (JStr ''t'') (JStr ''v'') (JStr ''i'') \<noteq> None
   \<and> new_instance_template_creator client0 (JStr ''l'') \<noteq> None"
proof -
  have ok: "FMClient_init ''https://fm'' (Some ''key'') (Some ''secret'') ''AWS'' ''main'' None
              = Inr client0"
    by (simp add: FMClient_init_def client0_def)
  show ?thesis
    using ok
      client_construction_validates
        [of "''AWS''" None "Some ''secret''" "''https://fm''" "''main''" None]
      client_construction_validates
        [of "''GCP''" "Some ''key''" "Some ''secret''" "''https://fm''" "''main''" None]
      client_construction_validates
        [of "''AWS''" "Some ''key''" "Some ''secret''" "''https://fm''" "''main''" None
            client0 "JStr ''l''" "JStr ''t''" "JStr ''v''" "JStr ''i''"]
    by simp
qed

section \<open>The type check of the data volume options\<close>

text \<open>
  C9. \<^verbatim>\<open>with_data_volume_options\<close> raises \<^verbatim>\<open>TypeError\<close> exactly when its
  \<^verbatim>\<open>data_volume_encryption\<close> argument is not a member of \<^verbatim>\<open>FMInstanceEncryptionMode\<close>, and
  it raises nothing else. Called with the default \<^verbatim>\<open>None\<close> for that argument it raises, and
  a call that raises leaves the accumulated data as it was.
\<close>

theorem data_volume_options_type_check:
  "(fst (with_data_volume_options t sz szmax iops enc key d) = Inl TypeError) = (\<not> is_mode enc)
   \<and> (\<forall>e. fst (with_data_volume_options t sz szmax iops enc key d) = Inl e \<longrightarrow> e = TypeError)
   \<and> with_data_volume_options t sz szmax iops (Plain JNull) key d = (Inl TypeError, d)
   \<and> (\<not> is_mode enc \<longrightarrow> snd (with_data_volume_options t sz szmax iops enc key d) = d)"
  by (cases enc) (simp_all add: with_data_volume_options_def)

theorem data_volume_options_type_check_witness:
  "\<not> is_mode (Plain (JStr ''CUSTOM''))
   \<and> with_data_volume_options JNull JNull JNull JNull (Plain (JStr ''CUSTOM'')) JNull
        [(''label'', JStr ''l'')] = (Inl TypeError, [(''label'', JStr ''l'')])
   \<and> fst (with_data_volume_options JNull JNull JNull JNull (Mode CUSTOM) JNull
        [(''label'', JStr ''l'')]) = Inr ()"
proof -
  have a: "\<not> is_mode (Plain (JStr ''CUSTOM''))" by simp
  have b: "fst (with_data_volume_options JNull JNull JNull JNull (Mode CUSTOM) JNull
             [(''label'', JStr ''l'')]) = Inr ()"
    by (simp add: with_data_volume_options_def)
  have c: "fst (with_data_volume_options JNull JNull JNull JNull (Plain (JStr ''CUSTOM'')) JNull
             [(''label'', JStr ''l'')]) = Inl TypeError"
    using data_volume_options_type_check
      [of JNull JNull JNull JNull "Plain (JStr ''CUSTOM'')" JNull "[(''label'', JStr ''l'')]"] a
    by simp
  have d: "snd (with_data_volume_options JNull JNull JNull JNull (Plain (JStr ''CUSTOM'')) JNull
             [(''label'', JStr ''l'')]) = [(''label'', JStr ''l'')]"
    using data_volume_options_type_check
      [of JNull JNull JNull JNull "Plain (JStr ''CUSTOM'')" JNull "[(''label'', JStr ''l'')]"] a
    by simp
  show ?thesis using a b c d by (simp add: prod_eq_iff)
qed

section \<open>Error responses\<close>

text \<open>
  C1, as the code has it. For every response whose status \<^verbatim>\<open>raise_for_status\<close> rejects (400
  to 599), \<^verbatim>\<open>_perform_http\<close> sends its one request and raises \<^verbatim>\<open>DataikuException\<close>: when
  the body parses as a JSON object, the message is the \<^verbatim>\<open>errorType\<close> field, a colon and the
  \<^verbatim>\<open>message\<close> field, with \<^verbatim>\<open>Unknown error\<close> and \<^verbatim>\<open>No message\<close> for a missing field, so it
  contains both fields when they are strings; when the body does not parse as JSON, the
  message is \<^verbatim>\<open>Unknown error: \<close> followed by the raw text of the response.
\<close>

theorem error_response_raises:
  assumes "srv (sent @ [the_request c m p ps b st f r]) = Response res"
      and "raises_for_status res"
  shows "snd (perform_http srv c m p ps b st f r sent) = sent @ [the_request c m p ps b st f r]
   \<and> (json_body res = None \<longrightarrow>
        fst (perform_http srv c m p ps b st f r sent) =
          Inl (DataikuException (''Unknown error: '' @ text_of res)))
   \<and> (\<forall>d. json_body res = Some (JObj d) \<longrightarrow>
        fst (perform_http srv c m p ps b st f r sent) =
          Inl (DataikuException
                 (field_or d ''errorType'' ''Unknown error'' @ '': '' @
                  field_or d ''message'' ''No message'')))
   \<and> (\<forall>d t. json_body res = Some (JObj d) \<and> map_of d ''errorType'' = Some (JStr t) \<longrightarrow>
        (\<exists>msg. fst (perform_http srv c m p ps b st f r sent) = Inl (DataikuException msg)
               \<and> contains msg t))
   \<and> (\<forall>d t. json_body res = Some (JObj d) \<and> map_of d ''message'' = Some (JStr t) \<longrightarrow>
        (\<exists>msg. fst (perform_http srv c m p ps b st f r sent) = Inl (DataikuException msg)
               \<and> contains msg t))
   \<and> (json_body res = None \<longrightarrow>
        (\<exists>msg. fst (perform_http srv c m p ps b st f r sent) = Inl (DataikuException msg)
               \<and> contains msg (text_of res)))"
proof -
  have none: "json_body res = None \<Longrightarrow>
      fst (perform_http srv c m p ps b st f r sent) =
        Inl (DataikuException (''Unknown error: '' @ text_of res))"
    using assms
    by (simp add: perform_http_eq http_outcome_def error_message_obj field_or_def py_str_def)
  have obj: "\<And>d. json_body res = Some (JObj d) \<Longrightarrow>
      fst (perform_http srv c m p ps b st f r sent) =
        Inl (DataikuException
               (field_or d ''errorType'' ''Unknown error'' @ '': '' @
                field_or d ''message'' ''No message''))"
    using assms by (simp add: perform_http_eq http_outcome_def error_message_obj)
  have c1: "\<And>d t. json_body res = Some (JObj d) \<Longrightarrow> map_of d ''errorType'' = Some (JStr t) \<Longrightarrow>
      contains (field_or d ''errorType'' ''Unknown error'' @ '': '' @
                field_or d ''message'' ''No message'') t"
    using contains_here by (simp add: field_or_str)
  have c2: "\<And>d t. json_body res = Some (JObj d) \<Longrightarrow> map_of d ''message'' = Some (JStr t) \<Longrightarrow>
      contains (field_or d ''errorType'' ''Unknown error'' @ '': '' @
                field_or d ''message'' ''No message'') t"
  proof -
    fix d t assume "json_body res = Some (JObj d)" "map_of d ''message'' = Some (JStr t)"
    then have "field_or d ''message'' ''No message'' = t" by (simp add: field_or_str)
    then show "contains (field_or d ''errorType'' ''Unknown error'' @ '': '' @
                field_or d ''message'' ''No message'') t"
      using contains_append [of "field_or d ''errorType'' ''Unknown error'' @ '': ''" t "[]"]
      by simp
  qed
  have c3: "contains (''Unknown error: '' @ text_of res) (text_of res)"
    using contains_append [of "''Unknown error: ''" "text_of res" "[]"] by simp
  show ?thesis
    using none obj c1 c2 c3 by (simp add: perform_http_sent)
qed

theorem error_response_raises_witness:
  "fst (perform_http
         (always \<lparr> status_code = 404, text_of = ''{\"errorType\":\"NotFound\",\"message\":\"no such instance\"}'',
                   json_body = Some (JObj [(''errorType'', JStr ''NotFound''),
                                           (''message'', JStr ''no such instance'')]) \<rparr>)
         client0 ''GET'' ''/tenants/main/instances/i-9'' None None False None None [])
     = Inl (DataikuException ''NotFound: no such instance'')
   \<and> fst (perform_http
         (always \<lparr> status_code = 500, text_of = ''internal error'', json_body = None \<rparr>)
         client0 ''GET'' ''/tenants/main/instances/i-9'' None None False None None [])
     = Inl (DataikuException ''Unknown error: internal error'')"
proof -
  let ?r1 = "\<lparr> status_code = 404, text_of = ''{\"errorType\":\"NotFound\",\"message\":\"no such instance\"}'',
                   json_body = Some (JObj [(''errorType'', JStr ''NotFound''),
                                           (''message'', JStr ''no such instance'')]) \<rparr>"
  let ?r2 = "\<lparr> status_code = 500, text_of = ''internal error'', json_body = None \<rparr>"
  have a1: "always ?r1 ([] @ [the_request client0 ''GET'' ''/tenants/main/instances/i-9'' None None False None None]) = Response ?r1"
    by (simp add: always_def)
  have a2: "always ?r2 ([] @ [the_request client0 ''GET'' ''/tenants/main/instances/i-9'' None None False None None]) = Response ?r2"
    by (simp add: always_def)
  have s1: "raises_for_status ?r1" by (simp add: raises_for_status_def)
  have s2: "raises_for_status ?r2" by (simp add: raises_for_status_def)
  show ?thesis
    using
      error_response_raises [where srv = "always ?r1" and sent = "[]" and res = ?r1, OF a1 s1]
      error_response_raises [where srv = "always ?r2" and sent = "[]" and res = ?r2, OF a2 s2]
    by (simp add: field_or_def py_str_def)
qed

text \<open>
  C1 as stated does not hold for every response outside the 2xx range. A response with
  status 304 is returned to the caller and nothing is raised; and an error response whose
  body parses as JSON that is not an object ends in \<^verbatim>\<open>AttributeError\<close>, raised by the
  \<^verbatim>\<open>get\<close> lookup on the parsed value, not in \<^verbatim>\<open>DataikuException\<close>.
\<close>

theorem not_every_failure_is_a_DataikuException:
  "fst (perform_http (always \<lparr> status_code = 304, text_of = [], json_body = None \<rparr>)
         client0 ''GET'' ''/tenants/main/instances'' None None False None None [])
     = Inr \<lparr> status_code = 304, text_of = [], json_body = None \<rparr>
   \<and> fst (perform_http
         (always \<lparr> status_code = 500, text_of = ''[\"internal error\"]'',
                   json_body = Some (JArr [JStr ''internal error'']) \<rparr>)
         client0 ''GET'' ''/tenants/main/instances'' None None False None None [])
     = Inl AttributeError"
  by (simp add: perform_http_eq http_outcome_def always_def raises_for_status_def
        error_message_def get_default_def)

section \<open>Saving a handle\<close>

text \<open>
  C2, as the code has it. For every instance handle, every template handle that holds a
  client, and every server: \<^verbatim>\<open>save\<close> first sends a PUT to the resource's URL whose body is the
  serialised local state, or no body when the local state is \<^verbatim>\<open>None\<close>. When that PUT is
  answered by a response that \<^verbatim>\<open>raise_for_status\<close> lets pass, it sends a GET of the same URL
  and nothing more; whenever \<^verbatim>\<open>save\<close> returns, exactly these two requests were sent and the
  local state is the JSON body of the GET's response, and \<^verbatim>\<open>save\<close> does return when the GET
  also passes and its body is JSON. When the PUT fails, \<^verbatim>\<open>save\<close> raises after the PUT alone
  and the local state stays as it was.
\<close>

theorem save_puts_then_gets:
  "(fst (save srv h sent) = Inr () \<longrightarrow>
      snd (snd (save srv h sent)) = sent @ [instance_put h, instance_get h]
      \<and> (\<exists>res. srv (sent @ [instance_put h, instance_get h]) = Response res
               \<and> json_body res = Some (instance_data (fst (snd (save srv h sent))))))
   \<and> (accepted (srv (sent @ [instance_put h])) \<longrightarrow>
        snd (snd (save srv h sent)) = sent @ [instance_put h, instance_get h])
   \<and> (\<forall>res j. accepted (srv (sent @ [instance_put h]))
         \<and> srv (sent @ [instance_put h, instance_get h]) = Response res
         \<and> \<not> raises_for_status res \<and> json_body res = Some j \<longrightarrow>
        save srv h sent = (Inr (), h\<lparr>instance_data := j\<rparr>, sent @ [instance_put h, instance_get h]))
   \<and> (\<not> accepted (srv (sent @ [instance_put h])) \<longrightarrow>
        (\<exists>e. save srv h sent = (Inl e, h, sent @ [instance_put h])))
   \<and> (ist_client t = ClientObj c \<longrightarrow>
       (fst (template_save srv t sent) = Inr () \<longrightarrow>
          snd (snd (template_save srv t sent)) = sent @ [template_put c t, template_get c t]
          \<and> (\<exists>res. srv (sent @ [template_put c t, template_get c t]) = Response res
                   \<and> json_body res = Some (ist_data (fst (snd (template_save srv t sent))))))
       \<and> (accepted (srv (sent @ [template_put c t])) \<longrightarrow>
            snd (snd (template_save srv t sent)) = sent @ [template_put c t, template_get c t])
       \<and> (\<forall>res j. accepted (srv (sent @ [template_put c t]))
             \<and> srv (sent @ [template_put c t, template_get c t]) = Response res
             \<and> \<not> raises_for_status res \<and> json_body res = Some j \<longrightarrow>
            template_save srv t sent =
              (Inr (), t\<lparr>ist_data := j\<rparr>, sent @ [template_put c t, template_get c t]))
       \<and> (\<not> accepted (srv (sent @ [template_put c t])) \<longrightarrow>
            (\<exists>e. template_save srv t sent = (Inl e, t, sent @ [template_put c t]))))
   \<and> req_method (instance_put h) = ''PUT'' \<and> req_method (instance_get h) = ''GET''
   \<and> req_url (instance_put h) =
       host (inst_client h) @ ''/api/public/tenants/'' @ tenant_id (inst_client h) @
       ''/instances/'' @ py_str (inst_id h)
   \<and> req_url (instance_get h) = req_url (instance_put h)
   \<and> req_data (instance_put h) =
       (if instance_data h = JNull then None else Some (json_dumps (instance_data h)))
   \<and> req_data (instance_get h) = None
   \<and> req_method (template_put c t) = ''PUT'' \<and> req_method (template_get c t) = ''GET''
   \<and> req_url (template_put c t) =
       host c @ ''/api/public/tenants/'' @ tenant_id c @
       ''/instance-settings-templates/'' @ py_str (ist_id t)
   \<and> req_url (template_get c t) = req_url (template_put c t)
   \<and> req_data (template_put c t) =
       (if ist_data t = JNull then None else Some (json_dumps (ist_data t)))
   \<and> req_data (template_get c t) = None"
proof -
  have i1: "fst (save srv h sent) = Inr () \<Longrightarrow>
      snd (snd (save srv h sent)) = sent @ [instance_put h, instance_get h]
      \<and> (\<exists>res. srv (sent @ [instance_put h, instance_get h]) = Response res
               \<and> json_body res = Some (instance_data (fst (snd (save srv h sent)))))"
    by (auto simp: save_eq split: sum.splits dest: json_outcome_Inr)
  have i2: "accepted (srv (sent @ [instance_put h])) \<Longrightarrow>
        snd (snd (save srv h sent)) = sent @ [instance_put h, instance_get h]"
    by (auto simp: save_eq empty_outcome_accepted [symmetric] split: sum.splits)
  have i3: "\<And>res j. accepted (srv (sent @ [instance_put h])) \<Longrightarrow>
         srv (sent @ [instance_put h, instance_get h]) = Response res \<Longrightarrow>
         \<not> raises_for_status res \<Longrightarrow> json_body res = Some j \<Longrightarrow>
        save srv h sent = (Inr (), h\<lparr>instance_data := j\<rparr>, sent @ [instance_put h, instance_get h])"
    by (simp add: save_eq empty_outcome_accepted [symmetric] json_outcome_Response)
  have i4: "\<not> accepted (srv (sent @ [instance_put h])) \<Longrightarrow>
        (\<exists>e. save srv h sent = (Inl e, h, sent @ [instance_put h]))"
    using empty_outcome_cases [of "srv (sent @ [instance_put h])"]
    by (auto simp: save_eq empty_outcome_accepted [symmetric])
  have t1: "ist_client t = ClientObj c \<Longrightarrow> fst (template_save srv t sent) = Inr () \<Longrightarrow>
          snd (snd (template_save srv t sent)) = sent @ [template_put c t, template_get c t]
          \<and> (\<exists>res. srv (sent @ [template_put c t, template_get c t]) = Response res
                   \<and> json_body res = Some (ist_data (fst (snd (template_save srv t sent)))))"
    by (auto simp: template_save_eq split: sum.splits dest: json_outcome_Inr)
  have t2: "ist_client t = ClientObj c \<Longrightarrow> accepted (srv (sent @ [template_put c t])) \<Longrightarrow>
        snd (snd (template_save srv t sent)) = sent @ [template_put c t, template_get c t]"
    by (auto simp: template_save_eq empty_outcome_accepted [symmetric] split: sum.splits)
  have t3: "\<And>res j. ist_client t = ClientObj c \<Longrightarrow> accepted (srv (sent @ [template_put c t])) \<Longrightarrow>
         srv (sent @ [template_put c t, template_get c t]) = Response res \<Longrightarrow>
         \<not> raises_for_status res \<Longrightarrow> json_body res = Some j \<Longrightarrow>
        template_save srv t sent =
          (Inr (), t\<lparr>ist_data := j\<rparr>, sent @ [template_put c t, template_get c t])"
    by (simp add: template_save_eq empty_outcome_accepted [symmetric] json_outcome_Response)
  have t4: "ist_client t = ClientObj c \<Longrightarrow> \<not> accepted (srv (sent @ [template_put c t])) \<Longrightarrow>
        (\<exists>e. template_save srv t sent = (Inl e, t, sent @ [template_put c t]))"
    using empty_outcome_cases [of "srv (sent @ [template_put c t])"]
    by (auto simp: template_save_eq empty_outcome_accepted [symmetric])
  have main: "(fst (save srv h sent) = Inr () \<longrightarrow>
      snd (snd (save srv h sent)) = sent @ [instance_put h, instance_get h]
      \<and> (\<exists>res. srv (sent @ [instance_put h, instance_get h]) = Response res
               \<and> json_body res = Some (instance_data (fst (snd (save srv h sent))))))
   \<and> (accepted (srv (sent @ [instance_put h])) \<longrightarrow>
        snd (snd (save srv h sent)) = sent @ [instance_put h, instance_get h])
   \<and> (\<forall>res j. accepted (srv (sent @ [instance_put h]))
         \<and> srv (sent @ [instance_put h, instance_get h]) = Response res
         \<and> \<not> raises_for_status res \<and> json_body res = Some j \<longrightarrow>
        save srv h sent = (Inr (), h\<lparr>instance_data := j\<rparr>, sent @ [instance_put h, instance_get h]))
   \<and> (\<not> accepted (srv (sent @ [instance_put h])) \<longrightarrow>
        (\<exists>e. save srv h sent = (Inl e, h, sent @ [instance_put h])))
   \<and> (ist_client t = ClientObj c \<longrightarrow>
       (fst (template_save srv t sent) = Inr () \<longrightarrow>
          snd (snd (template_save srv t sent)) = sent @ [template_put c t, template_get c t]
          \<and> (\<exists>res. srv (sent @ [template_put c t, template_get c t]) = Response res
                   \<and> json_body res = Some (ist_data (fst (snd (template_save srv t sent))))))
       \<and> (accepted (srv (sent @ [template_put c t])) \<longrightarrow>
            snd (snd (template_save srv t sent)) = sent @ [template_put c t, template_get c t])
       \<and> (\<forall>res j. accepted (srv (sent @ [template_put c t]))
             \<and> srv (sent @ [template_put c t, template_get c t]) = Response res
             \<and> \<not> raises_for_status res \<and> json_body res = Some j \<longrightarrow>
            template_save srv t sent =
              (Inr (), t\<lparr>ist_data := j\<rparr>, sent @ [template_put c t, template_get c t]))
       \<and> (\<not> accepted (srv (sent @ [template_put c t])) \<longrightarrow>
            (\<exists>e. template_save srv t sent = (Inl e, t, sent @ [template_put c t]))))"
    using i1 i2 i3 i4 t1 t2 t3 t4 by blast
  have reqs: "req_method (instance_put h) = ''PUT'' \<and> req_method (instance_get h) = ''GET''
   \<and> req_url (instance_put h) =
       host (inst_client h) @ ''/api/public/tenants/'' @ tenant_id (inst_client h) @
       ''/instances/'' @ py_str (inst_id h)
   \<and> req_url (instance_get h) = req_url (instance_put h)
   \<and> req_data (instance_put h) =
       (if instance_data h = JNull then None else Some (json_dumps (instance_data h)))
   \<and> req_data (instance_get h) = None
   \<and> req_method (template_put c t) = ''PUT'' \<and> req_method (template_get c t) = ''GET''
   \<and> req_url (template_put c t) =
       host c @ ''/api/public/tenants/'' @ tenant_id c @
       ''/instance-settings-templates/'' @ py_str (ist_id t)
   \<and> req_url (template_get c t) = req_url (template_put c t)
   \<and> req_data (template_put c t) =
       (if ist_data t = JNull then None else Some (json_dumps (ist_data t)))
   \<and> req_data (template_get c t) = None"
    by (simp add: put_data template_put_data)
  show ?thesis
    apply (insert main reqs)
    apply (elim conjE)
    apply (intro conjI)
    apply assumption+
    done
qed

theorem save_puts_then_gets_witness:
  "save (always (ok_json (JObj [(''id'', JStr ''i-1''), (''label'', JStr ''prod'')]))) instance0 []
     = (Inr (),
        instance0\<lparr>instance_data := JObj [(''id'', JStr ''i-1''), (''label'', JStr ''prod'')]\<rparr>,
        [instance_put instance0, instance_get instance0])
   \<and> template_save (always (ok_json (JObj [(''id'', JStr ''ist-1'')]))) template0 []
     = (Inr (), template0\<lparr>ist_data := JObj [(''id'', JStr ''ist-1'')]\<rparr>,
        [template_put client0 template0, template_get client0 template0])
   \<and> (\<exists>e. save (always \<lparr> status_code = 403, text_of = ''denied'', json_body = None \<rparr>)
              instance0 [] = (Inl e, instance0, [instance_put instance0]))
   \<and> save (always (ok_json (JObj [(''id'', JStr ''i-1'')]))) (instance0\<lparr>instance_data := JNull\<rparr>) []
     = (Inr (), instance0\<lparr>instance_data := JObj [(''id'', JStr ''i-1'')]\<rparr>,
        [instance_put (instance0\<lparr>instance_data := JNull\<rparr>),
         instance_get (instance0\<lparr>instance_data := JNull\<rparr>)])
   \<and> req_data (instance_put (instance0\<lparr>instance_data := JNull\<rparr>)) = None
   \<and> req_data (instance_put instance0) = Some ''{\"id\": \"i-1\", \"label\": \"dev\"}''"
proof -
  let ?j = "JObj [(''id'', JStr ''i-1''), (''label'', JStr ''prod'')]"
  let ?k = "JObj [(''id'', JStr ''ist-1'')]"
  let ?i = "JObj [(''id'', JStr ''i-1'')]"
  let ?bad = "\<lparr> status_code = 403, text_of = ''denied'', json_body = None \<rparr>"
  let ?h = "instance0\<lparr>instance_data := JNull\<rparr>"
  have c: "ist_client template0 = ClientObj client0" by (simp add: template0_def)
  have r1: "always (ok_json ?j) ([] @ [instance_put instance0, instance_get instance0])
              = Response (ok_json ?j)"
    by (simp add: always_def)
  have r2: "always (ok_json ?k) ([] @ [template_put client0 template0, template_get client0 template0])
              = Response (ok_json ?k)"
    by (simp add: always_def)
  have r3: "always (ok_json ?i) ([] @ [instance_put ?h, instance_get ?h]) = Response (ok_json ?i)"
    by (simp add: always_def)
  have n1: "\<not> raises_for_status (ok_json ?j)" "json_body (ok_json ?j) = Some ?j"
     "\<not> raises_for_status (ok_json ?k)" "json_body (ok_json ?k) = Some ?k"
     "\<not> raises_for_status (ok_json ?i)" "json_body (ok_json ?i) = Some ?i"
    by (simp_all add: ok_json_def raises_for_status_def)
  have bad: "\<not> accepted (always ?bad ([] @ [instance_put instance0]))"
    by (simp add: accepted_def always_def raises_for_status_def)
  have a: "save (always (ok_json ?j)) instance0 []
     = (Inr (), instance0\<lparr>instance_data := ?j\<rparr>, [instance_put instance0, instance_get instance0])"
    using save_puts_then_gets [where srv = "always (ok_json ?j)" and h = instance0 and sent = "[]"]
      r1 n1 accepted_ok_json
    by simp
  have b: "template_save (always (ok_json ?k)) template0 []
     = (Inr (), template0\<lparr>ist_data := ?k\<rparr>,
        [template_put client0 template0, template_get client0 template0])"
    using save_puts_then_gets [where srv = "always (ok_json ?k)" and t = template0 and c = client0
         and sent = "[]"] c r2 n1 accepted_ok_json
    by simp
  have d: "\<exists>e. save (always ?bad) instance0 [] = (Inl e, instance0, [instance_put instance0])"
    using save_puts_then_gets [where srv = "always ?bad" and h = instance0 and sent = "[]"] bad
    by simp
  have e: "save (always (ok_json ?i)) ?h []
     = (Inr (), instance0\<lparr>instance_data := ?i\<rparr>, [instance_put ?h, instance_get ?h])"
    using save_puts_then_gets [where srv = "always (ok_json ?i)" and h = ?h and sent = "[]"]
      r3 n1 accepted_ok_json
    by simp
  have f: "req_data (instance_put ?h) = None"
    using save_puts_then_gets [where h = ?h] by simp
  have g: "req_data (instance_put instance0) = Some ''{\"id\": \"i-1\", \"label\": \"dev\"}''"
    using save_puts_then_gets [where h = instance0]
    by (simp add: instance0_def dumps_str_def dumps_char_def)
  show ?thesis
    apply (insert a b d e f g)
    apply (intro conjI)
    apply assumption+
    done
qed

text \<open>
  C2 as stated, for every server, does not hold: when the server answers the PUT with an
  error status the exception leaves \<^verbatim>\<open>save\<close> before the GET, so one request is sent, not
  two.
\<close>

theorem save_stops_after_failed_put:
  "save (always \<lparr> status_code = 500, text_of = ''internal error'', json_body = None \<rparr>)
        instance0 []
     = (Inl (DataikuException ''Unknown error: internal error''), instance0,
        [\<lparr> req_method = ''PUT'', req_url = ''https://fm/api/public/tenants/main/instances/i-1'',
            req_params = None, req_data = Some ''{\"id\": \"i-1\", \"label\": \"dev\"}'',
            req_files = None, req_stream = False \<rparr>])"
  by (simp add: save_eq empty_outcome_def http_outcome_def always_def raises_for_status_def
        error_message_def get_default_def py_str_def instance_put_def as_body_def
        tenant_request_def
        the_request_def instance0_def client0_def dumps_str_def dumps_char_def)

section \<open>Requests per action\<close>

text \<open>
  C6, as the code has it. \<^verbatim>\<open>reprovision\<close>, \<^verbatim>\<open>deprovision\<close>, \<^verbatim>\<open>restart_dss\<close> and \<^verbatim>\<open>delete\<close> of
  an instance handle, and \<^verbatim>\<open>delete\<close> of a template handle that holds a client, each send
  exactly one request per call. A \<^verbatim>\<open>set_*\<close> method on a handle whose local state is a dict
  assigns its keys and then does what \<^verbatim>\<open>save\<close> does on the updated handle: it sends one PUT
  of the updated state and, when the PUT's answer passes, one GET of the same resource, and
  nothing else; so never more than two requests. On a local state that is not a dict the
  assignment raises \<^verbatim>\<open>TypeError\<close> and nothing is sent, and \<^verbatim>\<open>set_elastic_ip\<close> on a plain
  \<^verbatim>\<open>FMInstance\<close>, which has no such method, raises \<^verbatim>\<open>AttributeError\<close> and sends nothing.
\<close>

theorem actions_send_one_request_setters_two:
  "snd (reprovision srv h sent) = sent @ [action_request h ''reprovision'']
   \<and> snd (deprovision srv h sent) = sent @ [action_request h ''deprovision'']
   \<and> snd (restart_dss srv h sent) = sent @ [action_request h ''restart-dss'']
   \<and> snd (delete srv h sent) = sent @ [action_request h ''delete'']
   \<and> snd (template_delete srv (t\<lparr>ist_client := ClientObj c\<rparr>) sent) =
       sent @ [tenant_request c ''DELETE''
                 (''/instance-settings-templates/'' @ py_str (ist_id t)) None]
   \<and> (\<exists>rest. snd (snd (set_automated_snapshots enable period keep srv h sent)) = sent @ rest
             \<and> length rest \<le> 2)
   \<and> (\<exists>rest. snd (snd (set_custom_certificate pem srv h sent)) = sent @ rest \<and> length rest \<le> 2)
   \<and> (\<exists>rest. snd (snd (set_elastic_ip on ip srv h sent)) = sent @ rest \<and> length rest \<le> 2)
   \<and> (\<forall>d. instance_data h = JObj d \<longrightarrow>
         set_automated_snapshots enable period keep srv h sent =
           save srv
             (h\<lparr>instance_data :=
                  JObj (dict_set ''automatedSnapshotRetention'' keep
                         (dict_set ''automatedSnapshotPeriod'' period
                           (dict_set ''enableAutomatedSnapshot'' enable d)))\<rparr>) sent
       \<and> snd (snd (set_automated_snapshots enable period keep srv h sent)) =
           sent @ save_requests srv
             (h\<lparr>instance_data :=
                  JObj (dict_set ''automatedSnapshotRetention'' keep
                         (dict_set ''automatedSnapshotPeriod'' period
                           (dict_set ''enableAutomatedSnapshot'' enable d)))\<rparr>) sent)
   \<and> (\<forall>d. instance_data h = JObj d \<longrightarrow>
         set_custom_certificate pem srv h sent =
           save srv (h\<lparr>instance_data := JObj (dict_set ''sslCertificatePEM'' pem d)\<rparr>) sent
       \<and> snd (snd (set_custom_certificate pem srv h sent)) =
           sent @ save_requests srv
             (h\<lparr>instance_data := JObj (dict_set ''sslCertificatePEM'' pem d)\<rparr>) sent)
   \<and> (\<forall>d. instance_data h = JObj d \<and> inst_class h = Some AWS \<longrightarrow>
         set_elastic_ip on ip srv h sent =
           save srv
             (h\<lparr>instance_data :=
                  JObj (dict_set ''awsElasticIPAllocationId'' ip
                         (dict_set ''awsAssignElasticIP'' on d))\<rparr>) sent
       \<and> snd (snd (set_elastic_ip on ip srv h sent)) =
           sent @ save_requests srv
             (h\<lparr>instance_data :=
                  JObj (dict_set ''awsElasticIPAllocationId'' ip
                         (dict_set ''awsAssignElasticIP'' on d))\<rparr>) sent)
   \<and> (\<forall>d. instance_data h = JObj d \<and> inst_class h = Some Azure \<longrightarrow>
         set_elastic_ip on ip srv h sent =
           save srv
             (h\<lparr>instance_data :=
                  JObj (dict_set ''azurePublicIPId'' ip
                         (dict_set ''azureAssignElasticIP'' on d))\<rparr>) sent
       \<and> snd (snd (set_elastic_ip on ip srv h sent)) =
           sent @ save_requests srv
             (h\<lparr>instance_data :=
                  JObj (dict_set ''azurePublicIPId'' ip
                         (dict_set ''azureAssignElasticIP'' on d))\<rparr>) sent)
   \<and> ((\<forall>d. instance_data h \<noteq> JObj d) \<longrightarrow>
         set_automated_snapshots enable period keep srv h sent = (Inl TypeError, h, sent)
       \<and> set_custom_certificate pem srv h sent = (Inl TypeError, h, sent)
       \<and> (inst_class h \<noteq> None \<longrightarrow> set_elastic_ip on ip srv h sent = (Inl TypeError, h, sent)))
   \<and> (inst_class h = None \<longrightarrow> set_elastic_ip on ip srv h sent = (Inl AttributeError, h, sent))
   \<and> save_requests srv h sent =
       (if accepted (srv (sent @ [instance_put h])) then [instance_put h, instance_get h]
        else [instance_put h])
   \<and> req_method (instance_put h) = ''PUT'' \<and> req_method (instance_get h) = ''GET''
   \<and> req_url (instance_get h) = req_url (instance_put h)
   \<and> req_data (instance_put h) =
       (if instance_data h = JNull then None else Some (json_dumps (instance_data h)))"
proof -
  have e: "\<exists>rest. snd (snd (set_elastic_ip on ip srv h sent)) = sent @ rest \<and> length rest \<le> 2"
  proof (cases "inst_class h")
    case None
    then show ?thesis by (simp add: set_elastic_ip_def)
  next
    case (Some cl)
    then show ?thesis
      using assign_and_save_sent_le
      by (cases cl) (simp_all add: set_elastic_ip_def del: assign_and_save.simps)
  qed
  have old: "snd (reprovision srv h sent) = sent @ [action_request h ''reprovision'']
   \<and> snd (deprovision srv h sent) = sent @ [action_request h ''deprovision'']
   \<and> snd (restart_dss srv h sent) = sent @ [action_request h ''restart-dss'']
   \<and> snd (delete srv h sent) = sent @ [action_request h ''delete'']
   \<and> snd (template_delete srv (t\<lparr>ist_client := ClientObj c\<rparr>) sent) =
       sent @ [tenant_request c ''DELETE''
                 (''/instance-settings-templates/'' @ py_str (ist_id t)) None]
   \<and> (\<exists>rest. snd (snd (set_automated_snapshots enable period keep srv h sent)) = sent @ rest
             \<and> length rest \<le> 2)
   \<and> (\<exists>rest. snd (snd (set_custom_certificate pem srv h sent)) = sent @ rest \<and> length rest \<le> 2)
   \<and> (\<exists>rest. snd (snd (set_elastic_ip on ip srv h sent)) = sent @ rest \<and> length rest \<le> 2)"
    using e assign_and_save_sent_le
    by (simp add: reprovision_def deprovision_def restart_dss_def delete_def instance_action_eq
          template_delete_sent set_automated_snapshots_def set_custom_certificate_def
          del: assign_and_save.simps)
  have snap: "\<forall>d. instance_data h = JObj d \<longrightarrow>
         set_automated_snapshots enable period keep srv h sent =
           save srv
             (h\<lparr>instance_data :=
                  JObj (dict_set ''automatedSnapshotRetention'' keep
                         (dict_set ''automatedSnapshotPeriod'' period
                           (dict_set ''enableAutomatedSnapshot'' enable d)))\<rparr>) sent
       \<and> snd (snd (set_automated_snapshots enable period keep srv h sent)) =
           sent @ save_requests srv
             (h\<lparr>instance_data :=
                  JObj (dict_set ''automatedSnapshotRetention'' keep
                         (dict_set ''automatedSnapshotPeriod'' period
                           (dict_set ''enableAutomatedSnapshot'' enable d)))\<rparr>) sent"
    by (simp add: set_automated_snapshots_def assign_and_save_dict' save_sent
          del: assign_and_save.simps)
  have cert: "\<forall>d. instance_data h = JObj d \<longrightarrow>
         set_custom_certificate pem srv h sent =
           save srv (h\<lparr>instance_data := JObj (dict_set ''sslCertificatePEM'' pem d)\<rparr>) sent
       \<and> snd (snd (set_custom_certificate pem srv h sent)) =
           sent @ save_requests srv
             (h\<lparr>instance_data := JObj (dict_set ''sslCertificatePEM'' pem d)\<rparr>) sent"
    by (simp add: set_custom_certificate_def assign_and_save_dict' save_sent
          del: assign_and_save.simps)
  have aws: "\<forall>d. instance_data h = JObj d \<and> inst_class h = Some AWS \<longrightarrow>
         set_elastic_ip on ip srv h sent =
           save srv
             (h\<lparr>instance_data :=
                  JObj (dict_set ''awsElasticIPAllocationId'' ip
                         (dict_set ''awsAssignElasticIP'' on d))\<rparr>) sent
       \<and> snd (snd (set_elastic_ip on ip srv h sent)) =
           sent @ save_requests srv
             (h\<lparr>instance_data :=
                  JObj (dict_set ''awsElasticIPAllocationId'' ip
                         (dict_set ''awsAssignElasticIP'' on d))\<rparr>) sent"
    by (simp add: set_elastic_ip_def assign_and_save_dict' save_sent
          del: assign_and_save.simps)
  have azure: "\<forall>d. instance_data h = JObj d \<and> inst_class h = Some Azure \<longrightarrow>
         set_elastic_ip on ip srv h sent =
           save srv
             (h\<lparr>instance_data :=
                  JObj (dict_set ''azurePublicIPId'' ip
                         (dict_set ''azureAssignElasticIP'' on d))\<rparr>) sent
       \<and> snd (snd (set_elastic_ip on ip srv h sent)) =
           sent @ save_requests srv
             (h\<lparr>instance_data :=
                  JObj (dict_set ''azurePublicIPId'' ip
                         (dict_set ''azureAssignElasticIP'' on d))\<rparr>) sent"
    by (simp add: set_elastic_ip_def assign_and_save_dict' save_sent
          del: assign_and_save.simps)
  have nd: "(\<forall>d. instance_data h \<noteq> JObj d) \<longrightarrow>
         set_automated_snapshots enable period keep srv h sent = (Inl TypeError, h, sent)
       \<and> set_custom_certificate pem srv h sent = (Inl TypeError, h, sent)
       \<and> (inst_class h \<noteq> None \<longrightarrow> set_elastic_ip on ip srv h sent = (Inl TypeError, h, sent))"
  proof
    assume n: "\<forall>d. instance_data h \<noteq> JObj d"
    have "inst_class h \<noteq> None \<Longrightarrow> set_elastic_ip on ip srv h sent = (Inl TypeError, h, sent)"
    proof -
      assume "inst_class h \<noteq> None"
      then obtain cl where "inst_class h = Some cl" by auto
      then show ?thesis
        using n
        by (cases cl)
           (simp_all add: set_elastic_ip_def assign_and_save_not_dict del: assign_and_save.simps)
    qed
    then show "set_automated_snapshots enable period keep srv h sent = (Inl TypeError, h, sent)
       \<and> set_custom_certificate pem srv h sent = (Inl TypeError, h, sent)
       \<and> (inst_class h \<noteq> None \<longrightarrow> set_elastic_ip on ip srv h sent = (Inl TypeError, h, sent))"
      using n
      by (simp add: set_automated_snapshots_def set_custom_certificate_def
            assign_and_save_not_dict del: assign_and_save.simps)
  qed
  have none: "inst_class h = None \<longrightarrow> set_elastic_ip on ip srv h sent = (Inl AttributeError, h, sent)"
    by (simp add: set_elastic_ip_def)
  have rest: "save_requests srv h sent =
       (if accepted (srv (sent @ [instance_put h])) then [instance_put h, instance_get h]
        else [instance_put h])
   \<and> req_method (instance_put h) = ''PUT'' \<and> req_method (instance_get h) = ''GET''
   \<and> req_url (instance_get h) = req_url (instance_put h)
   \<and> req_data (instance_put h) =
       (if instance_data h = JNull then None else Some (json_dumps (instance_data h)))"
    by (simp add: save_requests_def put_data)
  show ?thesis
    apply (insert old snap cert aws azure nd none rest)
    apply (elim conjE)
    apply (intro conjI)
    apply assumption+
    done
qed

theorem actions_send_one_request_setters_two_witness:
  "snd (snd (set_automated_snapshots (JBool True) (JInt 24) (JInt 0)
               (always \<lparr> status_code = 403, text_of = ''denied'', json_body = None \<rparr>)
               instance0 []))
     = [\<lparr> req_method = ''PUT'', req_url = ''https://fm/api/public/tenants/main/instances/i-1'',
           req_params = None,
           req_data = Some ''{\"id\": \"i-1\", \"label\": \"dev\", \"enableAutomatedSnapshot\": true, \"automatedSnapshotPeriod\": 24, \"automatedSnapshotRetention\": 0}'',
           req_files = None, req_stream = False \<rparr>]
   \<and> set_custom_certificate (JStr ''PEM'') (always (ok_json (JObj [(''id'', JStr ''i-1'')])))
        (instance0\<lparr>instance_data := JNull\<rparr>) []
     = (Inl TypeError, instance0\<lparr>instance_data := JNull\<rparr>, [])
   \<and> set_elastic_ip (JBool True) (JStr ''eipalloc-1'')
        (always (ok_json (JObj [(''id'', JStr ''i-1'')]))) instance0 []
     = (Inl AttributeError, instance0, [])
   \<and> snd (snd (set_elastic_ip (JBool True) (JStr ''eipalloc-1'')
               (always (ok_json (JObj [(''id'', JStr ''i-1'')])))
               (instance0\<lparr>inst_class := Some AWS\<rparr>) []))
     = [\<lparr> req_method = ''PUT'', req_url = ''https://fm/api/public/tenants/main/instances/i-1'',
           req_params = None,
           req_data = Some ''{\"id\": \"i-1\", \"label\": \"dev\", \"awsAssignElasticIP\": true, \"awsElasticIPAllocationId\": \"eipalloc-1\"}'',
           req_files = None, req_stream = False \<rparr>,
        \<lparr> req_method = ''GET'', req_url = ''https://fm/api/public/tenants/main/instances/i-1'',
           req_params = None, req_data = None, req_files = None, req_stream = False \<rparr>]"
proof -
  let ?bad = "always \<lparr> status_code = 403, text_of = ''denied'', json_body = None \<rparr>"
  let ?ok = "always (ok_json (JObj [(''id'', JStr ''i-1'')]))"
  let ?d = "[(''id'', JStr ''i-1''), (''label'', JStr ''dev'')]"
  let ?aws = "instance0\<lparr>inst_class := Some AWS\<rparr>"
  let ?null = "instance0\<lparr>instance_data := JNull\<rparr>"
  have d0: "instance_data instance0 = JObj ?d" "inst_class instance0 = None"
    by (simp_all add: instance0_def)
  have d1: "instance_data ?aws = JObj ?d" "inst_class ?aws = Some AWS"
    by (simp_all add: instance0_def)
  have d2: "\<forall>d. instance_data ?null \<noteq> JObj d"
    by simp
  have nb: "\<And>s. \<not> accepted (?bad s)"
    by (simp add: accepted_def always_def raises_for_status_def)
  note T1 = actions_send_one_request_setters_two
      [where srv = ?bad and h = instance0 and sent = "[]" and t = template0 and c = client0
         and enable = "JBool True" and period = "JInt 24" and keep = "JInt 0"
         and pem = "JStr ''PEM''" and on = "JBool True" and ip = "JStr ''eipalloc-1''"]
  note T2 = actions_send_one_request_setters_two
      [where srv = ?ok and h = ?null and sent = "[]" and t = template0 and c = client0
         and enable = "JBool True" and period = "JInt 24" and keep = "JInt 0"
         and pem = "JStr ''PEM''" and on = "JBool True" and ip = "JStr ''eipalloc-1''"]
  note T3 = actions_send_one_request_setters_two
      [where srv = ?ok and h = instance0 and sent = "[]" and t = template0 and c = client0
         and enable = "JBool True" and period = "JInt 24" and keep = "JInt 0"
         and pem = "JStr ''PEM''" and on = "JBool True" and ip = "JStr ''eipalloc-1''"]
  note T4 = actions_send_one_request_setters_two
      [where srv = ?ok and h = ?aws and sent = "[]" and t = template0 and c = client0
         and enable = "JBool True" and period = "JInt 24" and keep = "JInt 0"
         and pem = "JStr ''PEM''" and on = "JBool True" and ip = "JStr ''eipalloc-1''"]
  have a0: "snd (snd (set_automated_snapshots (JBool True) (JInt 24) (JInt 0) ?bad instance0 []))
     = [] @ save_requests ?bad
         (instance0\<lparr>instance_data :=
            JObj (dict_set ''automatedSnapshotRetention'' (JInt 0)
                   (dict_set ''automatedSnapshotPeriod'' (JInt 24)
                     (dict_set ''enableAutomatedSnapshot'' (JBool True) ?d)))\<rparr>) []"
    using T1 d0(1) by blast
  have a: "snd (snd (set_automated_snapshots (JBool True) (JInt 24) (JInt 0) ?bad instance0 []))
     = [\<lparr> req_method = ''PUT'', req_url = ''https://fm/api/public/tenants/main/instances/i-1'',
           req_params = None,
           req_data = Some ''{\"id\": \"i-1\", \"label\": \"dev\", \"enableAutomatedSnapshot\": true, \"automatedSnapshotPeriod\": 24, \"automatedSnapshotRetention\": 0}'',
           req_files = None, req_stream = False \<rparr>]"
    unfolding a0
    by (simp add: save_requests_def nb instance_put_def as_body_def tenant_request_def
          the_request_def instance0_def client0_def py_str_def dict_set_def dumps_str_def
          dumps_char_def dec_int_def)
  have b: "set_custom_certificate (JStr ''PEM'') ?ok ?null [] = (Inl TypeError, ?null, [])"
    using T2 d2 by blast
  have c: "set_elastic_ip (JBool True) (JStr ''eipalloc-1'') ?ok instance0 []
     = (Inl AttributeError, instance0, [])"
    using T3 d0(2) by blast
  have e0: "snd (snd (set_elastic_ip (JBool True) (JStr ''eipalloc-1'') ?ok ?aws []))
     = [] @ save_requests ?ok
         (?aws\<lparr>instance_data :=
            JObj (dict_set ''awsElasticIPAllocationId'' (JStr ''eipalloc-1'')
                   (dict_set ''awsAssignElasticIP'' (JBool True) ?d))\<rparr>) []"
    using T4 d1 by blast
  have e: "snd (snd (set_elastic_ip (JBool True) (JStr ''eipalloc-1'') ?ok ?aws []))
     = [\<lparr> req_method = ''PUT'', req_url = ''https://fm/api/public/tenants/main/instances/i-1'',
           req_params = None,
           req_data = Some ''{\"id\": \"i-1\", \"label\": \"dev\", \"awsAssignElasticIP\": true, \"awsElasticIPAllocationId\": \"eipalloc-1\"}'',
           req_files = None, req_stream = False \<rparr>,
        \<lparr> req_method = ''GET'', req_url = ''https://fm/api/public/tenants/main/instances/i-1'',
           req_params = None, req_data = None, req_files = None, req_stream = False \<rparr>]"
    unfolding e0
    by (simp add: save_requests_def accepted_ok_json instance_put_def instance_get_def
          as_body_def tenant_request_def the_request_def instance0_def client0_def py_str_def
          dict_set_def dumps_str_def dumps_char_def)
  show ?thesis
    apply (insert a b c e)
    apply (intro conjI)
    apply assumption+
    done
qed

text \<open>
  C6 as stated does not hold for the \<^verbatim>\<open>set_*\<close> methods: with a server that accepts every
  request, \<^verbatim>\<open>set_custom_certificate\<close> sends a PUT and then a GET.
\<close>

theorem setter_sends_two_requests:
  "snd (snd (set_custom_certificate (JStr ''PEM'')
               (always (ok_json (JObj [(''id'', JStr ''i-1'')]))) instance0 []))
     = [\<lparr> req_method = ''PUT'', req_url = ''https://fm/api/public/tenants/main/instances/i-1'',
           req_params = None,
           req_data = Some ''{\"id\": \"i-1\", \"label\": \"dev\", \"sslCertificatePEM\": \"PEM\"}'',
           req_files = None, req_stream = False \<rparr>,
        \<lparr> req_method = ''GET'', req_url = ''https://fm/api/public/tenants/main/instances/i-1'',
           req_params = None, req_data = None, req_files = None, req_stream = False \<rparr>]"
  by (simp add: set_custom_certificate_def setitem_def dict_set_def save_eq
        instance0_def empty_outcome_def json_outcome_def http_outcome_def
        always_def ok_json_def raises_for_status_def instance_put_def instance_get_def
        as_body_def tenant_request_def the_request_def client0_def py_str_def dumps_str_def
        dumps_char_def split: sum.splits)

section \<open>Listing instances\<close>

text \<open>
  C3 says that \<^verbatim>\<open>list_instances\<close> wraps the i-th object of the server's list in a handle,
  as \<^verbatim>\<open>get_instance\<close> does. The code passes each object as keyword arguments
  (\<^verbatim>\<open>FMInstance(self, **x)\<close>) where \<^verbatim>\<open>get_instance\<close> passes it as the snapshot: for the list
  holding the one object \<^verbatim>\<open>{"id": "i-1"}\<close> the call raises \<^verbatim>\<open>TypeError\<close> after its GET,
  while \<^verbatim>\<open>get_instance\<close> wraps the same object in a handle.
\<close>

theorem list_instances_raises_TypeError:
  "list_instances (always (ok_json (JArr [JObj [(''id'', JStr ''i-1'')]]))) client0 []
     = (Inl TypeError,
        [\<lparr> req_method = ''GET'', req_url = ''https://fm/api/public/tenants/main/instances'',
            req_params = None, req_data = None, req_files = None, req_stream = False \<rparr>])
   \<and> get_instance (always (ok_json (JObj [(''id'', JStr ''i-1'')]))) client0 ''i-1'' []
     = (Inr \<lparr> inst_class = None, inst_client = client0,
              instance_data = JObj [(''id'', JStr ''i-1'')], inst_id = JStr ''i-1'' \<rparr>,
        [\<lparr> req_method = ''GET'', req_url = ''https://fm/api/public/tenants/main/instances/i-1'',
            req_params = None, req_data = None, req_files = None, req_stream = False \<rparr>])"
  by (simp add: list_instances_def get_instance_def perform_tenant_json_eq json_outcome_def
        http_outcome_def always_def ok_json_def raises_for_status_def py_iter_def
        FMInstance_init_kwargs_def FMInstance_init_def getitem_def tenant_request_def
        the_request_def client0_def)

section \<open>Creating a template\<close>

text \<open>
  C4 says that the handle returned by \<^verbatim>\<open>create\<close> holds the creator's client. The code
  passes the creator itself (\<^verbatim>\<open>FMInstanceSettingsTemplate(self, template)\<close>): after the one
  POST of the accumulated data, the handle's \<^verbatim>\<open>client\<close> is the creator, and \<^verbatim>\<open>save\<close> and
  \<^verbatim>\<open>delete\<close> on it raise \<^verbatim>\<open>AttributeError\<close> without sending anything, whatever the server.
  A handle from \<^verbatim>\<open>get_instance_template\<close> holds the client.
\<close>

theorem created_template_holds_the_creator:
  "template_create (always (ok_json (JObj [(''id'', JStr ''ist-1'')]))) creator0 []
     = (Inr \<lparr> ist_client = TemplateCreatorObj creator0, ist_id = JStr ''ist-1'',
              ist_data = JObj [(''id'', JStr ''ist-1'')] \<rparr>,
        [\<lparr> req_method = ''POST'',
            req_url = ''https://fm/api/public/tenants/main/instance-settings-templates'',
            req_params = None, req_data = Some ''{\"label\": \"base\"}'',
            req_files = None, req_stream = False \<rparr>])
   \<and> template_save srv
        \<lparr> ist_client = TemplateCreatorObj creator0, ist_id = JStr ''ist-1'',
          ist_data = JObj [(''id'', JStr ''ist-1'')] \<rparr> sent
     = (Inl AttributeError,
        \<lparr> ist_client = TemplateCreatorObj creator0, ist_id = JStr ''ist-1'',
          ist_data = JObj [(''id'', JStr ''ist-1'')] \<rparr>, sent)
   \<and> template_delete srv
        \<lparr> ist_client = TemplateCreatorObj creator0, ist_id = JStr ''ist-1'',
          ist_data = JObj [(''id'', JStr ''ist-1'')] \<rparr> sent
     = (Inl AttributeError, sent)
   \<and> fst (get_instance_template (always (ok_json (JObj [(''id'', JStr ''ist-1'')]))) client0
             ''ist-1'' [])
     = Inr \<lparr> ist_client = ClientObj client0, ist_id = JStr ''ist-1'',
             ist_data = JObj [(''id'', JStr ''ist-1'')] \<rparr>"
  by (simp add: template_create_def template_save_def template_delete_def
        get_instance_template_def perform_tenant_json_eq json_outcome_def
        http_outcome_def always_def ok_json_def raises_for_status_def
        FMInstanceSettingsTemplate_init_def getitem_def tenant_request_def
        the_request_def client0_def creator0_def FMInstanceSettingsTemplateCreator_init_def
        dict_set_def dumps_str_def dumps_char_def)

section \<open>Order of the setters\<close>

text \<open>
  C5, as the code has it. Take two different setter methods of a creator, other than the
  pair \<^verbatim>\<open>with_default_aws_api_access_mode\<close> and \<^verbatim>\<open>with_keypair_aws_api_access_mode\<close>, and
  arguments with which neither call raises. Then \<^verbatim>\<open>with_x(a).with_y(b).create()\<close> and
  \<^verbatim>\<open>with_y(b).with_x(a).create()\<close> each send one POST, and the two bodies are the
  serialisations of dicts that are equal as dicts: the same keys with the same values.
\<close>

theorem setter_order_same_members:
  assumes "setter_name s \<noteq> setter_name t"
      and "{setter_name s, setter_name t} \<noteq>
             {''with_default_aws_api_access_mode'', ''with_keypair_aws_api_access_mode''}"
      and "chain2 cls s t d = Inr d1"
      and "chain2 cls t s d = Inr d2"
  shows "map_of d1 = map_of d2
   \<and> (\<forall>cr srv sent. cls = InstanceCreator (ic_class cr) \<and> d = ic_data cr \<longrightarrow>
         snd (instance_chain srv s t cr sent) =
           sent @ [tenant_request (ic_client cr) ''POST'' ''/instances'' (Some (JObj d1))]
       \<and> snd (instance_chain srv t s cr sent) =
           sent @ [tenant_request (ic_client cr) ''POST'' ''/instances'' (Some (JObj d2))])
   \<and> (\<forall>cr srv sent. cls = TemplateCreator (tc_class cr) \<and> d = tc_data cr \<longrightarrow>
         snd (template_chain srv s t cr sent) =
           sent @ [tenant_request (tc_client cr) ''POST'' ''/instance-settings-templates''
                     (Some (JObj d1))]
       \<and> snd (template_chain srv t s cr sent) =
           sent @ [tenant_request (tc_client cr) ''POST'' ''/instance-settings-templates''
                     (Some (JObj d2))])"
proof -
  let ?ms = "map_of (rev (writes s))" and ?mt = "map_of (rev (writes t))"
  have "owner_name (setter_name s) \<noteq> owner_name (setter_name t)"
    using assms(1,2) by (rule distinct_names_owner)
  then have "fst ` set (writes s) \<inter> fst ` set (writes t) = {}"
    by (rule writes_disjoint)
  then have "dom ?ms \<inter> dom ?mt = {}"
    by (simp only: dom_writes)
  then have comm: "?ms ++ ?mt = ?mt ++ ?ms" by (rule map_add_comm)
  have "map_of d1 = map_of d ++ (?ms ++ ?mt)"
    using chain2_writes [OF assms(3)] by (simp add: map_of_assign_all)
  moreover have "map_of d2 = map_of d ++ (?mt ++ ?ms)"
    using chain2_writes [OF assms(4)] by (simp add: map_of_assign_all)
  ultimately have eq: "map_of d1 = map_of d2" using comm by simp
  have inst: "\<And>cr srv sent. cls = InstanceCreator (ic_class cr) \<Longrightarrow> d = ic_data cr \<Longrightarrow>
         snd (instance_chain srv s t cr sent) =
           sent @ [tenant_request (ic_client cr) ''POST'' ''/instances'' (Some (JObj d1))]
       \<and> snd (instance_chain srv t s cr sent) =
           sent @ [tenant_request (ic_client cr) ''POST'' ''/instances'' (Some (JObj d2))]"
    using assms(3,4) by (simp add: instance_chain_def instance_create_sent)
  have tmpl: "\<And>cr srv sent. cls = TemplateCreator (tc_class cr) \<Longrightarrow> d = tc_data cr \<Longrightarrow>
         snd (template_chain srv s t cr sent) =
           sent @ [tenant_request (tc_client cr) ''POST'' ''/instance-settings-templates''
                     (Some (JObj d1))]
       \<and> snd (template_chain srv t s cr sent) =
           sent @ [tenant_request (tc_client cr) ''POST'' ''/instance-settings-templates''
                     (Some (JObj d2))]"
    using assms(3,4) by (simp add: template_chain_def template_create_sent)
  show ?thesis using eq inst tmpl by blast
qed

theorem setter_order_same_members_witness:
  "map_of [(''label'', JStr ''base''), (''license'', JStr ''L''), (''setupActions'', JArr [])]
     = map_of [(''label'', JStr ''base''), (''setupActions'', JArr []), (''license'', JStr ''L'')]
   \<and> snd (template_chain (always (ok_json (JObj [(''id'', JStr ''ist-1'')])))
            (With_license (JStr ''L'')) (With_setup_actions (JArr [])) creator0 [])
     = [tenant_request client0 ''POST'' ''/instance-settings-templates''
          (Some (JObj [(''label'', JStr ''base''), (''license'', JStr ''L''),
                       (''setupActions'', JArr [])]))]
   \<and> map_of (ic_data icreator0 @ [(''cloudTags'', JObj []), (''fmTags'', JArr [JStr ''blue''])])
     = map_of (ic_data icreator0 @ [(''fmTags'', JArr [JStr ''blue'']), (''cloudTags'', JObj [])])
   \<and> snd (instance_chain (always (ok_json (JObj [(''id'', JStr ''i-1'')])))
            (With_fm_tags (JArr [JStr ''blue''])) (With_cloud_tags (JObj [])) icreator0 [])
     = [tenant_request client0 ''POST'' ''/instances''
          (Some (JObj (ic_data icreator0 @
                   [(''fmTags'', JArr [JStr ''blue'']), (''cloudTags'', JObj [])])))]"
proof -
  have n: "setter_name (With_license (JStr ''L'')) \<noteq> setter_name (With_setup_actions (JArr []))"
    by simp
  have p: "{setter_name (With_license (JStr ''L'')), setter_name (With_setup_actions (JArr []))} \<noteq>
             {''with_default_aws_api_access_mode'', ''with_keypair_aws_api_access_mode''}"
    by (simp add: doubleton_eq_iff)
  have c: "TemplateCreator AWS = TemplateCreator (tc_class creator0)"
          "[(''label'', JStr ''base'')] = tc_data creator0"
          "tc_client creator0 = client0"
    by (simp_all add: creator0_def FMInstanceSettingsTemplateCreator_init_def dict_set_def)
  have n': "setter_name (With_cloud_tags (JObj [])) \<noteq> setter_name (With_fm_tags (JArr [JStr ''blue'']))"
    by simp
  have p': "{setter_name (With_cloud_tags (JObj [])), setter_name (With_fm_tags (JArr [JStr ''blue'']))} \<noteq>
             {''with_default_aws_api_access_mode'', ''with_keypair_aws_api_access_mode''}"
    by (simp add: doubleton_eq_iff)
  have c': "InstanceCreator AWS = InstanceCreator (ic_class icreator0)"
    by (simp add: icreator0_data)
  have t: "map_of [(''label'', JStr ''base''), (''license'', JStr ''L''), (''setupActions'', JArr [])]
     = map_of [(''label'', JStr ''base''), (''setupActions'', JArr []), (''license'', JStr ''L'')]
   \<and> snd (template_chain (always (ok_json (JObj [(''id'', JStr ''ist-1'')])))
            (With_license (JStr ''L'')) (With_setup_actions (JArr [])) creator0 [])
     = [tenant_request client0 ''POST'' ''/instance-settings-templates''
          (Some (JObj [(''label'', JStr ''base''), (''license'', JStr ''L''),
                       (''setupActions'', JArr [])]))]"
    using setter_order_same_members [OF n p chain2_license_actions] c
    by simp
  have i: "map_of (ic_data icreator0 @ [(''cloudTags'', JObj []), (''fmTags'', JArr [JStr ''blue''])])
     = map_of (ic_data icreator0 @ [(''fmTags'', JArr [JStr ''blue'']), (''cloudTags'', JObj [])])
   \<and> snd (instance_chain (always (ok_json (JObj [(''id'', JStr ''i-1'')])))
            (With_fm_tags (JArr [JStr ''blue''])) (With_cloud_tags (JObj [])) icreator0 [])
     = [tenant_request client0 ''POST'' ''/instances''
          (Some (JObj (ic_data icreator0 @
                   [(''fmTags'', JArr [JStr ''blue'']), (''cloudTags'', JObj [])])))]"
    using setter_order_same_members [OF n' p' chain2_tags] c'
    by (simp add: icreator0_data(3))
  show ?thesis using t i by (simp only: simp_thms)
qed

text \<open>
  C5 as stated does not hold. The two access-mode setters both assign
  \<^verbatim>\<open>dataikuAwsAPIAccessMode\<close>, so the later call decides the value that is sent. And for
  setters that assign different keys the body lists the members in the order of the calls,
  so the two texts are not identical although they denote the same object.
\<close>

theorem setter_order_matters:
  "map req_data
     (snd (template_chain (always (ok_json (JObj [(''id'', JStr ''ist-1'')])))
             With_default_aws_api_access_mode
             (With_keypair_aws_api_access_mode (JStr ''AKIA'') (JStr ''NONE'') JNull JNull JNull)
             creator0 []))
     = [Some ''{\"label\": \"base\", \"dataikuAwsAPIAccessMode\": \"KEYPAIR\", \"dataikuAwsKeypairStorageMode\": \"NONE\"}'']
   \<and> map req_data
     (snd (template_chain (always (ok_json (JObj [(''id'', JStr ''ist-1'')])))
             (With_keypair_aws_api_access_mode (JStr ''AKIA'') (JStr ''NONE'') JNull JNull JNull)
             With_default_aws_api_access_mode
             creator0 []))
     = [Some ''{\"label\": \"base\", \"dataikuAwsAPIAccessMode\": \"NONE\", \"dataikuAwsKeypairStorageMode\": \"NONE\"}'']
   \<and> snd (template_chain (always (ok_json (JObj [(''id'', JStr ''ist-1'')])))
             With_default_aws_api_access_mode
             (With_keypair_aws_api_access_mode (JStr ''AKIA'') (JStr ''NONE'') JNull JNull JNull)
             creator0 [])
     \<noteq> snd (template_chain (always (ok_json (JObj [(''id'', JStr ''ist-1'')])))
             (With_keypair_aws_api_access_mode (JStr ''AKIA'') (JStr ''NONE'') JNull JNull JNull)
             With_default_aws_api_access_mode
             creator0 [])
   \<and> map req_data
     (snd (template_chain (always (ok_json (JObj [(''id'', JStr ''ist-1'')])))
             (With_license (JStr ''L'')) (With_setup_actions (JArr [])) creator0 []))
     = [Some ''{\"label\": \"base\", \"license\": \"L\", \"setupActions\": []}'']
   \<and> map req_data
     (snd (template_chain (always (ok_json (JObj [(''id'', JStr ''ist-1'')])))
             (With_setup_actions (JArr [])) (With_license (JStr ''L'')) creator0 []))
     = [Some ''{\"label\": \"base\", \"setupActions\": [], \"license\": \"L\"}'']
   \<and> snd (template_chain (always (ok_json (JObj [(''id'', JStr ''ist-1'')])))
             (With_license (JStr ''L'')) (With_setup_actions (JArr [])) creator0 [])
     \<noteq> snd (template_chain (always (ok_json (JObj [(''id'', JStr ''ist-1'')])))
             (With_setup_actions (JArr [])) (With_license (JStr ''L'')) creator0 [])"
proof -
  let ?srv = "always (ok_json (JObj [(''id'', JStr ''ist-1'')]))"
  let ?kp = "With_keypair_aws_api_access_mode (JStr ''AKIA'') (JStr ''NONE'') JNull JNull JNull"
  let ?li = "With_license (JStr ''L'')" and ?sa = "With_setup_actions (JArr [])"
  have "map req_data (snd (template_chain ?srv With_default_aws_api_access_mode ?kp creator0 []))
          \<noteq> map req_data (snd (template_chain ?srv ?kp With_default_aws_api_access_mode creator0 []))"
    by (simp only: chain_bodies) simp
  then have a: "snd (template_chain ?srv With_default_aws_api_access_mode ?kp creator0 [])
          \<noteq> snd (template_chain ?srv ?kp With_default_aws_api_access_mode creator0 [])"
    by auto
  have "map req_data (snd (template_chain ?srv ?li ?sa creator0 []))
          \<noteq> map req_data (snd (template_chain ?srv ?sa ?li creator0 []))"
    by (simp only: chain_bodies) simp
  then have b: "snd (template_chain ?srv ?li ?sa creator0 [])
          \<noteq> snd (template_chain ?srv ?sa ?li creator0 [])"
    by auto
  show ?thesis using a b chain_bodies by blast
qed

end
